theory Spec2Isabelle
  imports Main "HOL-Library.Word"
begin

section \<open>Common types\<close>

text \<open>
  The embedded sources are \<^verbatim>\<open>core/types/transaction.go\<close>, \<^verbatim>\<open>miner/task.go\<close> and
  \<^verbatim>\<open>miner/core.go\<close>. Go's \<^verbatim>\<open>uint64\<close> is a 64-bit word, \<^verbatim>\<open>*big.Int\<close> is an optional
  unbounded integer (\<open>None\<close> for the nil pointer), a byte slice is a list of 8-bit words.
  \<^verbatim>\<open>common.Hash\<close> and \<^verbatim>\<open>common.Address\<close> are fixed-size byte arrays; they are kept as
  byte lists, compared bytewise as \<^verbatim>\<open>Hash.Equal\<close> does.
\<close>

type_synonym byte = "8 word"
type_synonym uint64 = "64 word"
type_synonym Hash = "byte list"
type_synonym Address = "byte list"

text \<open>
  Modelled from the spec: the length of \<^verbatim>\<open>common.Address\<close> is declared outside the
  embedded files; the spec only says "fixed-size opaque account identifier". The zero
  value \<^verbatim>\<open>common.Address{}\<close> is the all-zero array.
\<close>

definition AddressLen :: nat where
  "AddressLen = 20"

definition zeroAddress :: Address where
  "zeroAddress = replicate AddressLen 0"

text \<open>\<^verbatim>\<open>crypto.Signature\<close>: a struct around the signature bytes; \<^verbatim>\<open>&crypto.Signature{}\<close> is
  its zero value.\<close>

record Signature =
  Sig :: "byte list"

definition emptySignature :: Signature where
  "emptySignature = \<lparr>Sig = []\<rparr>"

section \<open>Transactions (core/types/transaction.go)\<close>

definition defaultMaxPayloadSize :: int where
  "defaultMaxPayloadSize = 32 * 1024"

text \<open>
  \<^verbatim>\<open>MaxPayloadSize\<close> is a package variable, exported and assignable, initialised to
  \<^verbatim>\<open>defaultMaxPayloadSize\<close>. The functions that read it take its value at the time of the
  call as the parameter \<open>MaxPayloadSize\<close>.
\<close>

datatype error =
    ErrAmountNegative
  | ErrAmountNil
  | ErrBalanceNotEnough
  | ErrHashMismatch
  | ErrNonceTooLow
  | ErrPayloadOversized
  | ErrSigInvalid
  | ErrSigMissing

text \<open>The text of each error, as \<^verbatim>\<open>errors.New\<close> is given it.\<close>

fun Error :: "error \<Rightarrow> string" where
  "Error ErrAmountNegative = ''amount is negative''"
| "Error ErrAmountNil = ''amount is null''"
| "Error ErrBalanceNotEnough = ''balance not enough''"
| "Error ErrHashMismatch = ''hash mismatch''"
| "Error ErrNonceTooLow = ''nonce too low''"
| "Error ErrPayloadOversized = ''oversized payload''"
| "Error ErrSigInvalid = ''signature is invalid''"
| "Error ErrSigMissing = ''signature missing''"

datatype panic = Panic string

record TransactionData =
  From :: Address
  To :: "Address option"
  Amount :: "int option"
  AccountNonce :: uint64
  Timestamp :: uint64
  Payload :: "byte list"

record Transaction =
  Hash :: Hash
  Data :: "TransactionData option"
  Signature :: "Signature option"

text \<open>The interface \<^verbatim>\<open>stateDB\<close> that \<^verbatim>\<open>Validate\<close> reads; the balance it returns is taken
  to be a number (not the nil pointer).\<close>

record stateDB =
  GetBalance :: "Address \<Rightarrow> int"
  GetNonce :: "Address \<Rightarrow> uint64"

text \<open>
  The package \<^verbatim>\<open>crypto\<close> is outside the embedded files, so its functions are parameters.
  \<^verbatim>\<open>crypto.MustHash\<close> takes any value; the values it is given here are a string and a
  \<^verbatim>\<open>*TransactionData\<close>. \<^verbatim>\<open>Verify\<close> is \<^verbatim>\<open>Signature.Verify(signer, hashBytes)\<close> and
  \<^verbatim>\<open>NewSignature\<close> is \<^verbatim>\<open>crypto.NewSignature(privKey, hashBytes)\<close>.
\<close>

text \<open>\<^verbatim>\<open>ecdsa.PrivateKey\<close> of the Go library, read as its secret number.\<close>

type_synonym PrivateKey = int

datatype hashable = HashString string | HashTxData "TransactionData option"

record crypto =
  MustHash :: "hashable \<Rightarrow> Hash"
  Verify :: "Signature \<Rightarrow> Address \<Rightarrow> byte list \<Rightarrow> bool"
  NewSignature :: "PrivateKey \<Rightarrow> byte list \<Rightarrow> Signature"

text \<open>
  \<^verbatim>\<open>newTx\<close> returns the pair \<^verbatim>\<open>(*Transaction, error)\<close> or panics. \<open>now\<close> is the value of
  \<^verbatim>\<open>uint64(time.Now().UnixNano())\<close> read during the call.
\<close>

definition newTx ::
  "crypto \<Rightarrow> int \<Rightarrow> uint64 \<Rightarrow> Address \<Rightarrow> Address option \<Rightarrow> int option \<Rightarrow> uint64 \<Rightarrow> byte list
    \<Rightarrow> panic + (Transaction option \<times> error option)" where
  "newTx c MaxPayloadSize now from to amount nonce payload =
     (case amount of
        None \<Rightarrow> Inl (Panic ''Failed to create tx, amount is nil.'')
      | Some a \<Rightarrow>
          if a < 0 then Inl (Panic ''Failed to create tx, amount is negative.'')
          else if int (length payload) > MaxPayloadSize then Inr (None, Some ErrPayloadOversized)
          else
            let txData = \<lparr>From = from, To = to, Amount = Some a, AccountNonce = nonce,
                          Timestamp = now,
                          Payload = (if length payload > 0 then payload else [])\<rparr>
            in Inr (Some \<lparr>Hash = MustHash c (HashTxData (Some txData)),
                          Data = Some txData, Signature = None\<rparr>, None))"

definition NewTransaction ::
  "crypto \<Rightarrow> int \<Rightarrow> uint64 \<Rightarrow> Address \<Rightarrow> Address \<Rightarrow> int option \<Rightarrow> uint64
    \<Rightarrow> panic + Transaction option" where
  "NewTransaction c MaxPayloadSize now from to amount nonce =
     (case newTx c MaxPayloadSize now from (Some to) amount nonce [] of
        Inl p \<Rightarrow> Inl p
      | Inr (tx, _) \<Rightarrow> Inr tx)"

definition NewContractTransaction ::
  "crypto \<Rightarrow> int \<Rightarrow> uint64 \<Rightarrow> Address \<Rightarrow> int option \<Rightarrow> uint64 \<Rightarrow> byte list
    \<Rightarrow> panic + (Transaction option \<times> error option)" where
  "NewContractTransaction c MaxPayloadSize now from amount nonce code = newTx c MaxPayloadSize now from None amount nonce code"

definition NewMessageTransaction ::
  "crypto \<Rightarrow> int \<Rightarrow> uint64 \<Rightarrow> Address \<Rightarrow> Address \<Rightarrow> int option \<Rightarrow> uint64 \<Rightarrow> byte list
    \<Rightarrow> panic + (Transaction option \<times> error option)" where
  "NewMessageTransaction c MaxPayloadSize now from to amount nonce msg = newTx c MaxPayloadSize now from (Some to) amount nonce msg"

definition Sign :: "crypto \<Rightarrow> Transaction \<Rightarrow> PrivateKey \<Rightarrow> Transaction" where
  "Sign c tx privKey =
     (let h = MustHash c (HashTxData (Data tx))
      in tx\<lparr>Hash := h, Signature := Some (NewSignature c privKey h)\<rparr>)"

definition Validate :: "crypto \<Rightarrow> int \<Rightarrow> Transaction \<Rightarrow> stateDB \<Rightarrow> error option" where
  "Validate c MaxPayloadSize tx statedb =
     (case Data tx of
        None \<Rightarrow> Some ErrAmountNil
      | Some d \<Rightarrow>
         (case Amount d of
            None \<Rightarrow> Some ErrAmountNil
          | Some a \<Rightarrow>
              if a < 0 then Some ErrAmountNegative
              else if a > GetBalance statedb (From d) then Some ErrBalanceNotEnough
              else if AccountNonce d < GetNonce statedb (From d) then Some ErrNonceTooLow
              else if int (length (Payload d)) > MaxPayloadSize then Some ErrPayloadOversized
              else
               (case Signature tx of
                  None \<Rightarrow> Some ErrSigMissing
                | Some sig \<Rightarrow>
                    let txDataHash = MustHash c (HashTxData (Data tx))
                    in if txDataHash \<noteq> Hash tx then Some ErrHashMismatch
                       else if \<not> Verify c sig (From d) txDataHash then Some ErrSigInvalid
                       else None)))"

definition CalculateHash :: "crypto \<Rightarrow> Transaction \<Rightarrow> Hash" where
  "CalculateHash c tx = MustHash c (HashTxData (Data tx))"

definition Equals :: "Transaction \<Rightarrow> Transaction \<Rightarrow> bool" where
  "Equals tx otherTx = (Hash tx = Hash otherTx)"

definition emptyTxRootHash :: "crypto \<Rightarrow> Hash" where
  "emptyTxRootHash c = MustHash c (HashString ''empty transaction root hash'')"

text \<open>
  The package \<^verbatim>\<open>merkle\<close> is outside the embedded files: \<open>merkleRoot\<close> stands for
  \<^verbatim>\<open>merkle.NewTree(contents)\<close> followed by \<^verbatim>\<open>MerkleRoot()\<close> on a non-empty list.
\<close>

definition MerkleRootHash ::
  "crypto \<Rightarrow> (Transaction list \<Rightarrow> Hash) \<Rightarrow> Transaction list \<Rightarrow> Hash" where
  "MerkleRootHash c merkleRoot txs =
     (if length txs = 0 then emptyTxRootHash c else merkleRoot txs)"

subsection \<open>The order of checks, as the specification lists it\<close>

text \<open>
  The eight checks of the specification, in its order, each with the kind reported when
  it fails; \<open>True\<close> means the check passes. A check that reads the data or the amount
  fails when that is absent. \<open>firstFailing\<close> reports the first check that fails.
\<close>

definition txAmount :: "Transaction \<Rightarrow> int option" where
  "txAmount tx = (case Data tx of None \<Rightarrow> None | Some d \<Rightarrow> Amount d)"

definition specChecks :: "crypto \<Rightarrow> int \<Rightarrow> Transaction \<Rightarrow> stateDB \<Rightarrow> (error \<times> bool) list" where
  "specChecks c MaxPayloadSize tx statedb =
     [(ErrAmountNil, txAmount tx \<noteq> None),
      (ErrAmountNegative, (case txAmount tx of None \<Rightarrow> False | Some a \<Rightarrow> 0 \<le> a)),
      (ErrBalanceNotEnough,
         (case Data tx of None \<Rightarrow> False | Some d \<Rightarrow>
            (case Amount d of None \<Rightarrow> False | Some a \<Rightarrow> a \<le> GetBalance statedb (From d)))),
      (ErrNonceTooLow,
         (case Data tx of None \<Rightarrow> False | Some d \<Rightarrow> GetNonce statedb (From d) \<le> AccountNonce d)),
      (ErrPayloadOversized,
         (case Data tx of None \<Rightarrow> False | Some d \<Rightarrow> int (length (Payload d)) \<le> MaxPayloadSize)),
      (ErrSigMissing, Signature tx \<noteq> None),
      (ErrHashMismatch, MustHash c (HashTxData (Data tx)) = Hash tx),
      (ErrSigInvalid,
         (case Data tx of None \<Rightarrow> False | Some d \<Rightarrow>
            (case Signature tx of None \<Rightarrow> False | Some sig \<Rightarrow>
               Verify c sig (From d) (MustHash c (HashTxData (Data tx))))))]"

fun firstFailing :: "(error \<times> bool) list \<Rightarrow> error option" where
  "firstFailing [] = None"
| "firstFailing ((e, ok) # cs) = (if ok then firstFailing cs else Some e)"

section \<open>Blocks, account state and collaborators\<close>

text \<open>
  Modelled from the spec: the declarations of \<^verbatim>\<open>types.BlockHeader\<close> and \<^verbatim>\<open>types.Block\<close> are
  outside the embedded files. The embedded code reads and writes \<^verbatim>\<open>Header.Difficulty\<close>,
  \<^verbatim>\<open>Header.Nonce\<close>, \<^verbatim>\<open>Header.StateHash\<close>, \<^verbatim>\<open>Block.Header\<close> and \<^verbatim>\<open>Block.HeaderHash\<close>; the
  other fields are those the spec lists (previous hash, height, timestamp,
  transactions root; a block is a header with its ordered transactions).
\<close>

record BlockHeader =
  PreviousBlockHash :: Hash
  StateHash :: Hash
  TxHash :: Hash
  Difficulty :: int
  Height :: uint64
  CreateTimestamp :: int
  Nonce :: uint64

record Block =
  HeaderHash :: Hash
  Header :: BlockHeader
  Transactions :: "Transaction list"

text \<open>
  \<^verbatim>\<open>types.NewBlock\<close> and the method \<^verbatim>\<open>BlockHeader.Hash\<close> are outside the embedded files:
  parameters. \<^verbatim>\<open>pow.GetReward\<close> returns an \<^verbatim>\<open>int64\<close> (it is handed to \<^verbatim>\<open>big.NewInt\<close>), and
  \<^verbatim>\<open>pow.GetMiningTarget\<close> maps the difficulty to the target, both big integers.
\<close>

record blocks =
  NewBlock :: "BlockHeader \<Rightarrow> Transaction list \<Rightarrow> Block"
  BlockHeaderHash :: "BlockHeader \<Rightarrow> Hash"

record pow =
  GetReward :: "uint64 \<Rightarrow> 64 word"
  GetMiningTarget :: "int \<Rightarrow> int"

text \<open>
  Modelled from the spec: \<^verbatim>\<open>state.Statedb\<close> is outside the embedded files. The spec's
  account state view keeps a balance and a nonce per address, with \<^verbatim>\<open>getBalance\<close>,
  \<^verbatim>\<open>getNonce\<close>, \<^verbatim>\<open>getOrCreate(addr)\<close> giving a handle on the (possibly new) account, and
  \<^verbatim>\<open>addAmount(handle, amount)\<close>. An address without an account reads as balance 0 and
  nonce 0. \<^verbatim>\<open>commit() -> stateRootHash\<close> is the parameter \<open>Commit\<close> of
  \<open>applyTransactions\<close>.
\<close>

record Account =
  AccBalance :: int
  AccNonce :: uint64

type_synonym Statedb = "Address \<rightharpoonup> Account"

definition StatedbGetBalance :: "Statedb \<Rightarrow> Address \<Rightarrow> int" where
  "StatedbGetBalance db addr = (case db addr of None \<Rightarrow> 0 | Some acc \<Rightarrow> AccBalance acc)"

definition StatedbGetNonce :: "Statedb \<Rightarrow> Address \<Rightarrow> uint64" where
  "StatedbGetNonce db addr = (case db addr of None \<Rightarrow> 0 | Some acc \<Rightarrow> AccNonce acc)"

definition GetOrNewStateObject :: "Statedb \<Rightarrow> Address \<Rightarrow> Statedb \<times> Address" where
  "GetOrNewStateObject db addr =
     (case db addr of
        None \<Rightarrow> (db(addr \<mapsto> \<lparr>AccBalance = 0, AccNonce = 0\<rparr>), addr)
      | Some _ \<Rightarrow> (db, addr))"

definition AddAmount :: "Statedb \<Rightarrow> Address \<Rightarrow> int \<Rightarrow> Statedb" where
  "AddAmount db stateObj amount =
     (case db stateObj of
        None \<Rightarrow> db
      | Some acc \<Rightarrow> db(stateObj \<mapsto> acc\<lparr>AccBalance := AccBalance acc + amount\<rparr>))"

text \<open>The \<^verbatim>\<open>*state.Statedb\<close> seen through the interface \<^verbatim>\<open>stateDB\<close> of \<^verbatim>\<open>Validate\<close>.\<close>

definition asStateDB :: "Statedb \<Rightarrow> stateDB" where
  "asStateDB db = \<lparr>GetBalance = StatedbGetBalance db, GetNonce = StatedbGetNonce db\<rparr>"

text \<open>
  Modelled from the spec: the pending transaction source has \<^verbatim>\<open>removeTransaction(hash)\<close>;
  the pool is kept as a map from hashes to the pending transactions.
\<close>

type_synonym TxPool = "Hash \<rightharpoonup> Transaction"

definition RemoveTransaction :: "TxPool \<Rightarrow> Hash \<Rightarrow> TxPool" where
  "RemoveTransaction txPool h = txPool(h := None)"

text \<open>
  \<^verbatim>\<open>SeeleBackend\<close>: the coinbase address and the chain's \<^verbatim>\<open>ApplyTransaction\<close>, which is
  handed the transaction, the coinbase, the state and the header, and changes the last
  two. Both are outside the embedded files.
\<close>

record SeeleBackend =
  GetCoinbase :: Address
  ApplyTransaction ::
    "Transaction \<Rightarrow> Address \<Rightarrow> Statedb \<Rightarrow> BlockHeader \<Rightarrow> Statedb \<times> BlockHeader"

section \<open>Mining tasks (miner/task.go)\<close>

record Task =
  header :: BlockHeader
  txs :: "Transaction list"
  createdAt :: int

record Result =
  task :: Task
  block :: Block

text \<open>
  What \<open>applyTransactions\<close> does to its collaborators, in program order: the calls on
  the pool, on \<^verbatim>\<open>Validate\<close> (with its answer) and on the chain, and the log lines, each
  with its format and arguments.
\<close>

datatype logArg = ArgString string | ArgUint64 uint64 | ArgBigInt int | ArgInt int

datatype event =
    EvRemoveTransaction Hash
  | EvValidate Hash "error option"
  | EvApplyTransaction Hash
  | LogError string "logArg list"
  | LogInfo string "logArg list"

text \<open>The state \<open>applyTransactions\<close> works on: the task, the state database, the
  pool behind \<^verbatim>\<open>seele.TxPool()\<close>, and the events so far.\<close>

record assembly =
  curTask :: Task
  curState :: Statedb
  curPool :: TxPool
  curEvents :: "event list"

text \<open>One round of the loop over the candidates.\<close>

definition applyOne :: "crypto \<Rightarrow> int \<Rightarrow> SeeleBackend \<Rightarrow> Transaction \<Rightarrow> assembly \<Rightarrow> assembly" where
  "applyOne c MaxPayloadSize seele tx s =
     (let s1 = s\<lparr>curPool := RemoveTransaction (curPool s) (Hash tx),
                 curEvents := curEvents s @ [EvRemoveTransaction (Hash tx)]\<rparr>;
          err = Validate c MaxPayloadSize tx (asStateDB (curState s1));
          s2 = s1\<lparr>curEvents := curEvents s1 @ [EvValidate (Hash tx) err]\<rparr>
      in case err of
           Some e \<Rightarrow>
             s2\<lparr>curEvents := curEvents s2 @
                  [LogError ''validating tx failed, for %s'' [ArgString (Error e)]]\<rparr>
         | None \<Rightarrow>
             (case ApplyTransaction seele tx (GetCoinbase seele) (curState s2) (header (curTask s2)) of
                (db', header') \<Rightarrow>
                  s2\<lparr>curState := db',
                     curTask := (curTask s2)\<lparr>header := header', txs := txs (curTask s2) @ [tx]\<rparr>,
                     curEvents := curEvents s2 @ [EvApplyTransaction (Hash tx)]\<rparr>))"

fun applyLoop :: "crypto \<Rightarrow> int \<Rightarrow> SeeleBackend \<Rightarrow> Transaction list \<Rightarrow> assembly \<Rightarrow> assembly" where
  "applyLoop c MaxPayloadSize seele [] s = s"
| "applyLoop c MaxPayloadSize seele (tx # rest) s = applyLoop c MaxPayloadSize seele rest (applyOne c MaxPayloadSize seele tx s)"

text \<open>
  \<open>applyTransactions\<close> returns its \<^verbatim>\<open>error\<close> with the state it leaves, or panics (inside
  \<^verbatim>\<open>NewTransaction\<close>, or on the nil transaction that \<^verbatim>\<open>NewTransaction\<close> may return).
  \<open>now\<close> is the clock read by \<^verbatim>\<open>NewTransaction\<close>.
\<close>

definition applyTransactions ::
  "crypto \<Rightarrow> int \<Rightarrow> pow \<Rightarrow> SeeleBackend \<Rightarrow> (Statedb \<Rightarrow> Hash) \<Rightarrow> uint64 \<Rightarrow> assembly \<Rightarrow> uint64
    \<Rightarrow> Transaction list \<Rightarrow> panic + (assembly \<times> error option)" where
  "applyTransactions c MaxPayloadSize pw seele Commit now s blockHeight candidates =
     (let rewardValue = sint (GetReward pw blockHeight)
      in case NewTransaction c MaxPayloadSize now zeroAddress (GetCoinbase seele) (Some rewardValue) 0 of
           Inl p \<Rightarrow> Inl p
         | Inr None \<Rightarrow> Inl (Panic ''invalid memory address or nil pointer dereference'')
         | Inr (Some r) \<Rightarrow>
             (let reward = r\<lparr>Signature := Some emptySignature\<rparr>
              in case GetOrNewStateObject (curState s) (GetCoinbase seele) of
                   (db1, stateObj) \<Rightarrow>
                     (let db2 = AddAmount db1 stateObj rewardValue;
                          s1 = s\<lparr>curState := db2,
                                 curTask := (curTask s)\<lparr>txs := txs (curTask s) @ [reward]\<rparr>\<rparr>;
                          s2 = applyLoop c MaxPayloadSize seele candidates s1;
                          s3 = s2\<lparr>curEvents := curEvents s2 @
                                 [LogInfo ''mining block height:%d, reward:%s, transaction number:%d''
                                    [ArgUint64 blockHeight, ArgBigInt rewardValue,
                                     ArgInt (int (length (txs (curTask s2))))]]\<rparr>;
                          root = Commit (curState s3)
                      in Inr (s3\<lparr>curTask := (curTask s3)\<lparr>header :=
                                   (header (curTask s3))\<lparr>StateHash := root\<rparr>\<rparr>\<rparr>, None))))"

definition generateBlock :: "blocks \<Rightarrow> Task \<Rightarrow> Block" where
  "generateBlock lib t = NewBlock lib (header t) (txs t)"

subsection \<open>The reward step and the trace of a candidate, as the specification words them\<close>

text \<open>
  The reward transaction of the specification: sender the zero address, receiver the
  coinbase, the given amount, nonce 0, no payload, the placeholder signature, and the hash
  of its data.
\<close>

definition rewardTx :: "crypto \<Rightarrow> uint64 \<Rightarrow> Address \<Rightarrow> int \<Rightarrow> Transaction" where
  "rewardTx c now coinbase amount =
     \<lparr>Hash = MustHash c (HashTxData (Some
               \<lparr>From = zeroAddress, To = Some coinbase, Amount = Some amount,
                AccountNonce = 0, Timestamp = now, Payload = []\<rparr>)),
      Data = Some \<lparr>From = zeroAddress, To = Some coinbase, Amount = Some amount,
                   AccountNonce = 0, Timestamp = now, Payload = []\<rparr>,
      Signature = Some emptySignature\<rparr>"

text \<open>Crediting the coinbase account, created when absent, by the amount.\<close>

definition creditCoinbase :: "Statedb \<Rightarrow> Address \<Rightarrow> int \<Rightarrow> Statedb" where
  "creditCoinbase db coinbase amount =
     (case GetOrNewStateObject db coinbase of (db1, stateObj) \<Rightarrow> AddAmount db1 stateObj amount)"

text \<open>The state in which the loop over the candidates starts: the coinbase credited with
  the reward of the height, the reward transaction appended to the task.\<close>

definition afterReward :: "crypto \<Rightarrow> pow \<Rightarrow> SeeleBackend \<Rightarrow> uint64 \<Rightarrow> assembly \<Rightarrow> uint64 \<Rightarrow> assembly" where
  "afterReward c pw seele now s blockHeight =
     s\<lparr>curState := creditCoinbase (curState s) (GetCoinbase seele) (sint (GetReward pw blockHeight)),
       curTask := (curTask s)\<lparr>txs := txs (curTask s) @
                    [rewardTx c now (GetCoinbase seele) (sint (GetReward pw blockHeight))]\<rparr>\<rparr>"

text \<open>
  The events of one candidate whose validation answered \<open>r\<close>: removal from the pool,
  then validation, then either the application or the error line in the log.
  \<open>validations\<close> lists the answers of \<^verbatim>\<open>Validate\<close>, each in the state in which its
  candidate is checked.
\<close>

definition candidateEvents :: "Transaction \<Rightarrow> error option \<Rightarrow> event list" where
  "candidateEvents tx r =
     [EvRemoveTransaction (Hash tx), EvValidate (Hash tx) r,
      (case r of
         None \<Rightarrow> EvApplyTransaction (Hash tx)
       | Some e \<Rightarrow> LogError ''validating tx failed, for %s'' [ArgString (Error e)])]"

fun validations :: "crypto \<Rightarrow> int \<Rightarrow> SeeleBackend \<Rightarrow> Transaction list \<Rightarrow> assembly \<Rightarrow> error option list" where
  "validations c MaxPayloadSize seele [] s = []"
| "validations c MaxPayloadSize seele (tx # rest) s =
     Validate c MaxPayloadSize tx (asStateDB (curState s)) # validations c MaxPayloadSize seele rest (applyOne c MaxPayloadSize seele tx s)"

text \<open>The state that \<open>applyTransactions\<close> returns, if it returns.\<close>

definition assembled :: "panic + (assembly \<times> error option) \<Rightarrow> assembly option" where
  "assembled r = (case r of Inl _ \<Rightarrow> None | Inr (s, _) \<Rightarrow> Some s)"

section \<open>The nonce search (miner/core.go)\<close>

text \<open>\<^verbatim>\<open>big.Int.SetBytes\<close>: the bytes read as a big-endian unsigned integer.\<close>

definition SetBytes :: "byte list \<Rightarrow> int" where
  "SetBytes bs = foldl (\<lambda>acc b. acc * 256 + uint b) 0 bs"

text \<open>
  What a worker observes of the other threads, by loop iteration: whether the abort
  channel is closed when the outer \<^verbatim>\<open>select\<close> polls it, whether \<^verbatim>\<open>isNonceFound\<close> reads
  non-zero, and whether a \<^verbatim>\<open>select\<close> between the abort channel and a send on the result
  channel takes the abort case. A \<^verbatim>\<open>select\<close> none of whose cases ever becomes ready is
  outside this model.
\<close>

record schedule =
  abortClosed :: "nat \<Rightarrow> bool"
  nonceFound :: "nat \<Rightarrow> bool"
  sendAborted :: "nat \<Rightarrow> bool"

text \<open>The ways out of the loop: its four \<^verbatim>\<open>break miner\<close>, the two that follow a
  \<^verbatim>\<open>select\<close> around a send split by the case taken.\<close>

datatype exit =
    Aborted
  | NonceFoundElsewhere
  | Found Result
  | FoundAborted
  | Outage
  | OutageAborted

text \<open>What the worker sent on the result channel (\<open>Some None\<close> is the nil result), and
  whether it stored 1 into \<^verbatim>\<open>isNonceFound\<close>.\<close>

fun sent :: "exit \<Rightarrow> Result option option" where
  "sent (Found r) = Some (Some r)"
| "sent Outage = Some None"
| "sent _ = None"

fun storedNonceFound :: "exit \<Rightarrow> bool" where
  "storedNonceFound (Found r) = True"
| "storedNonceFound _ = False"

text \<open>
  One iteration at the nonce \<open>nonce\<close>: either a way out, or the nonce of the next
  iteration. The block is the worker's own; the iteration overwrites the nonce in its
  header, and the header hash field when the nonce is good.
\<close>

definition mineStep ::
  "blocks \<Rightarrow> schedule \<Rightarrow> Task \<Rightarrow> Block \<Rightarrow> int \<Rightarrow> uint64 \<Rightarrow> uint64 \<Rightarrow> uint64 \<Rightarrow> nat \<Rightarrow> uint64
    \<Rightarrow> exit + uint64" where
  "mineStep lib sch t blk target seed mn mx i nonce =
     (if abortClosed sch i then Inl Aborted
      else if nonceFound sch i then Inl NonceFoundElsewhere
      else
        let blk1 = blk\<lparr>Header := (Header blk)\<lparr>Nonce := nonce\<rparr>\<rparr>;
            hash = BlockHeaderHash lib (Header blk1);
            hashInt = SetBytes hash
        in if hashInt \<le> target then
             (let found = \<lparr>task = t, block = blk1\<lparr>HeaderHash := hash\<rparr>\<rparr>
              in if sendAborted sch i then Inl FoundAborted else Inl (Found found))
           else
             (let nonce1 = (if nonce = mx then mn else nonce)
              in if nonce1 = seed - 1 then
                   (if sendAborted sch i then Inl OutageAborted else Inl Outage)
                 else Inr (nonce1 + 1)))"

text \<open>The loop \<^verbatim>\<open>for { ... }\<close>; \<open>None\<close> is a loop that never leaves.\<close>

partial_function (option) mineLoop ::
  "blocks \<Rightarrow> schedule \<Rightarrow> Task \<Rightarrow> Block \<Rightarrow> int \<Rightarrow> uint64 \<Rightarrow> uint64 \<Rightarrow> uint64 \<Rightarrow> nat \<Rightarrow> uint64
    \<Rightarrow> exit option" where
  "mineLoop lib sch t blk target seed mn mx i nonce =
     (case mineStep lib sch t blk target seed mn mx i nonce of
        Inl e \<Rightarrow> Some e
      | Inr nonce' \<Rightarrow> mineLoop lib sch t blk target seed mn mx (Suc i) nonce')"

definition StartMining ::
  "blocks \<Rightarrow> pow \<Rightarrow> schedule \<Rightarrow> Task \<Rightarrow> uint64 \<Rightarrow> uint64 \<Rightarrow> uint64 \<Rightarrow> exit option" where
  "StartMining lib pw sch t seed mn mx =
     (let blk = generateBlock lib t;
          target = GetMiningTarget pw (Difficulty (Header blk))
      in mineLoop lib sch t blk target seed mn mx 0 seed)"

declare mineLoop.simps [code]

text \<open>
  The number of nonces still ahead of a worker at \<open>nonce\<close> on its way from \<open>seed\<close> up
  to \<open>mx\<close> and then from above \<open>mn\<close> up to \<open>seed - 1\<close>; the measure of the loop.
\<close>

definition remaining :: "uint64 \<Rightarrow> uint64 \<Rightarrow> uint64 \<Rightarrow> nat" where
  "remaining seed mx nonce =
     (if seed \<le> nonce then unat mx - unat nonce + unat seed else unat seed - unat nonce)"

subsection \<open>An instance of the parameters, for evaluation\<close>

text \<open>
  A toy instance of the \<^verbatim>\<open>crypto\<close> package: the hash of transaction data is its payload,
  and a signature is the signed bytes themselves.
\<close>

definition toyCrypto :: crypto where
  "toyCrypto =
     \<lparr>MustHash = (\<lambda>h. case h of
                     HashString s \<Rightarrow> map (\<lambda>ch. of_nat (of_char ch)) s
                   | HashTxData None \<Rightarrow> []
                   | HashTxData (Some d) \<Rightarrow> Payload d),
      Verify = (\<lambda>sig signer bytes. Sig sig = bytes),
      NewSignature = (\<lambda>privKey bytes. \<lparr>Sig = bytes\<rparr>)\<rparr>"

definition toyState :: "int \<Rightarrow> uint64 \<Rightarrow> stateDB" where
  "toyState bal n = \<lparr>GetBalance = (\<lambda>_. bal), GetNonce = (\<lambda>_. n)\<rparr>"

definition toyTx :: "int \<Rightarrow> uint64 \<Rightarrow> byte list \<Rightarrow> Transaction" where
  "toyTx a n p =
     \<lparr>Hash = p,
      Data = Some \<lparr>From = [1], To = Some [2], Amount = Some a, AccountNonce = n,
                   Timestamp = 0, Payload = p\<rparr>,
      Signature = Some \<lparr>Sig = p\<rparr>\<rparr>"

text \<open>
  A toy instance of the block library and of the proof-of-work parameters: the header
  hash is four bytes, the last one the low byte of the nonce, and the target is
  \<open>10 - difficulty\<close>; with the difficulty 10 of \<open>toyTask\<close> a nonce is good exactly when
  its low byte is 0. \<open>quiet\<close> is a round in which nothing is aborted and no other
  worker finds a nonce.
\<close>

definition toyLib :: blocks where
  "toyLib =
     \<lparr>NewBlock = (\<lambda>h ts. \<lparr>HeaderHash = [], Header = h, Transactions = ts\<rparr>),
      BlockHeaderHash = (\<lambda>h. [0, 0, 0, ucast (Nonce h)])\<rparr>"

definition toyPow :: pow where
  "toyPow = \<lparr>GetReward = (\<lambda>height. 50), GetMiningTarget = (\<lambda>difficulty. 10 - difficulty)\<rparr>"

definition quiet :: schedule where
  "quiet = \<lparr>abortClosed = (\<lambda>_. False), nonceFound = (\<lambda>_. False), sendAborted = (\<lambda>_. False)\<rparr>"

definition toyTask :: Task where
  "toyTask =
     \<lparr>header = \<lparr>PreviousBlockHash = [], StateHash = [], TxHash = [], Difficulty = 10,
                 Height = 1, CreateTimestamp = 0, Nonce = 0\<rparr>,
      txs = [], createdAt = 0\<rparr>"

text \<open>
  A toy backend: the coinbase is the address \<open>[9]\<close>, applying a transaction debits its
  sender, and the state root is the low byte of the coinbase balance. \<open>toyAssembly\<close> is
  a new task, one account with balance 10 and nonce 7, and two pending transactions.
\<close>

definition toySeele :: SeeleBackend where
  "toySeele =
     \<lparr>GetCoinbase = [9],
      ApplyTransaction = (\<lambda>tx coinbase db h.
         case Data tx of
           None \<Rightarrow> (db, h)
         | Some d \<Rightarrow> (case Amount d of
                        None \<Rightarrow> (db, h)
                      | Some a \<Rightarrow> (AddAmount db (From d) (- a), h)))\<rparr>"

definition toyCommit :: "Statedb \<Rightarrow> Hash" where
  "toyCommit db = [of_int (StatedbGetBalance db [9])]"

definition toyAssembly :: assembly where
  "toyAssembly =
     \<lparr>curTask = toyTask,
      curState = [[1] \<mapsto> \<lparr>AccBalance = 10, AccNonce = 7\<rparr>],
      curPool = [[1, 2] \<mapsto> toyTx 11 7 [1, 2], [3] \<mapsto> toyTx 5 7 [3]],
      curEvents = []\<rparr>"

text \<open>The assignment \<^verbatim>\<open>tx.Data.Payload = p\<close> made on a transaction after it was built.\<close>

definition mutatePayload :: "Transaction \<Rightarrow> byte list \<Rightarrow> Transaction" where
  "mutatePayload tx p = tx\<lparr>Data := map_option (\<lambda>d. d\<lparr>Payload := p\<rparr>) (Data tx)\<rparr>"

section \<open>Properties of the transaction model\<close>

text \<open>
  C1. \<^verbatim>\<open>Validate\<close> runs the checks AmountNil, AmountNegative, BalanceInsufficient,
  NonceTooLow, PayloadOversized, SignatureMissing, HashMismatch, SignatureInvalid in this
  order and returns the kind of the first one that fails, and no error when all pass.
  In particular an amount (present and not negative) above the balance gives
  \<open>ErrBalanceNotEnough\<close>; when the amount checks pass, an account nonce below the state
  nonce gives \<open>ErrNonceTooLow\<close>; and an account nonce at or above the state nonce is
  never answered with \<open>ErrNonceTooLow\<close>.
\<close>

theorem Validate_first_failing_check:
  "Validate c MaxPayloadSize tx statedb = firstFailing (specChecks c MaxPayloadSize tx statedb)
   \<and> map fst (specChecks c MaxPayloadSize tx statedb) =
       [ErrAmountNil, ErrAmountNegative, ErrBalanceNotEnough, ErrNonceTooLow,
        ErrPayloadOversized, ErrSigMissing, ErrHashMismatch, ErrSigInvalid]
   \<and> (Validate c MaxPayloadSize tx statedb = None \<longleftrightarrow> (\<forall>ck \<in> set (specChecks c MaxPayloadSize tx statedb). snd ck))
   \<and> (Data tx = Some d \<and> Amount d = Some a \<and> 0 \<le> a \<and> GetBalance statedb (From d) < a
        \<longrightarrow> Validate c MaxPayloadSize tx statedb = Some ErrBalanceNotEnough)
   \<and> (Data tx = Some d \<and> Amount d = Some a \<and> 0 \<le> a \<and> a \<le> GetBalance statedb (From d)
        \<and> AccountNonce d < GetNonce statedb (From d)
        \<longrightarrow> Validate c MaxPayloadSize tx statedb = Some ErrNonceTooLow)
   \<and> (Data tx = Some d \<and> GetNonce statedb (From d) \<le> AccountNonce d
        \<longrightarrow> Validate c MaxPayloadSize tx statedb \<noteq> Some ErrNonceTooLow)"
proof -
  have refine: "Validate c MaxPayloadSize tx statedb = firstFailing (specChecks c MaxPayloadSize tx statedb)"
    by (auto simp: Validate_def specChecks_def txAmount_def Let_def split: option.splits)
  have kinds: "map fst (specChecks c MaxPayloadSize tx statedb) =
       [ErrAmountNil, ErrAmountNegative, ErrBalanceNotEnough, ErrNonceTooLow,
        ErrPayloadOversized, ErrSigMissing, ErrHashMismatch, ErrSigInvalid]"
    by (simp add: specChecks_def)
  have all_pass: "Validate c MaxPayloadSize tx statedb = None \<longleftrightarrow> (\<forall>ck \<in> set (specChecks c MaxPayloadSize tx statedb). snd ck)"
    by (auto simp: Validate_def specChecks_def txAmount_def Let_def split: option.splits)
  have balance: "Data tx = Some d \<and> Amount d = Some a \<and> 0 \<le> a \<and> GetBalance statedb (From d) < a
        \<longrightarrow> Validate c MaxPayloadSize tx statedb = Some ErrBalanceNotEnough"
    by (simp add: Validate_def)
  have nonce_low: "Data tx = Some d \<and> Amount d = Some a \<and> 0 \<le> a \<and> a \<le> GetBalance statedb (From d)
        \<and> AccountNonce d < GetNonce statedb (From d)
        \<longrightarrow> Validate c MaxPayloadSize tx statedb = Some ErrNonceTooLow"
    by (simp add: Validate_def)
  have nonce_ok: "Data tx = Some d \<and> GetNonce statedb (From d) \<le> AccountNonce d
        \<longrightarrow> Validate c MaxPayloadSize tx statedb \<noteq> Some ErrNonceTooLow"
    by (auto simp: Validate_def Let_def split: option.splits)
  from refine kinds all_pass balance nonce_low nonce_ok show ?thesis
    by blast
qed

theorem Validate_first_failing_check_witness:
  "Validate toyCrypto defaultMaxPayloadSize (toyTx 5 7 [1, 2]) (toyState 10 7) = None
   \<and> Validate toyCrypto defaultMaxPayloadSize (toyTx 11 7 [1, 2]) (toyState 10 7) = Some ErrBalanceNotEnough
   \<and> Validate toyCrypto defaultMaxPayloadSize (toyTx 5 6 [1, 2]) (toyState 10 7) = Some ErrNonceTooLow
   \<and> Validate toyCrypto defaultMaxPayloadSize (toyTx 5 8 [1, 2]) (toyState 10 7) \<noteq> Some ErrNonceTooLow"
proof -
  let ?d = "\<lambda>a n. \<lparr>From = [1], To = Some [2], Amount = Some a, AccountNonce = n,
                   Timestamp = 0, Payload = [1, 2 :: byte]\<rparr>"
  have pass: "\<forall>ck \<in> set (specChecks toyCrypto defaultMaxPayloadSize (toyTx 5 7 [1, 2]) (toyState 10 7)). snd ck"
    by (simp add: specChecks_def txAmount_def toyCrypto_def toyTx_def toyState_def
        defaultMaxPayloadSize_def)
  have bal: "Data (toyTx 11 7 [1, 2]) = Some (?d 11 7) \<and> Amount (?d 11 7) = Some 11 \<and> (0::int) \<le> 11
      \<and> GetBalance (toyState 10 7) (From (?d 11 7)) < 11"
    by (simp add: toyTx_def toyState_def)
  have low: "Data (toyTx 5 6 [1, 2]) = Some (?d 5 6) \<and> Amount (?d 5 6) = Some 5 \<and> (0::int) \<le> 5
      \<and> 5 \<le> GetBalance (toyState 10 7) (From (?d 5 6))
      \<and> AccountNonce (?d 5 6) < GetNonce (toyState 10 7) (From (?d 5 6))"
    by (simp add: toyTx_def toyState_def)
  have ok: "Data (toyTx 5 8 [1, 2]) = Some (?d 5 8)
      \<and> GetNonce (toyState 10 7) (From (?d 5 8)) \<le> AccountNonce (?d 5 8)"
    by (simp add: toyTx_def toyState_def)
  from pass Validate_first_failing_check [of toyCrypto defaultMaxPayloadSize "toyTx 5 7 [1, 2]" "toyState 10 7"]
  have "Validate toyCrypto defaultMaxPayloadSize (toyTx 5 7 [1, 2]) (toyState 10 7) = None"
    by blast
  moreover from bal
    Validate_first_failing_check [of toyCrypto defaultMaxPayloadSize "toyTx 11 7 [1, 2]" "toyState 10 7" "?d 11 7" 11]
  have "Validate toyCrypto defaultMaxPayloadSize (toyTx 11 7 [1, 2]) (toyState 10 7) = Some ErrBalanceNotEnough"
    by blast
  moreover from low
    Validate_first_failing_check [of toyCrypto defaultMaxPayloadSize "toyTx 5 6 [1, 2]" "toyState 10 7" "?d 5 6" 5]
  have "Validate toyCrypto defaultMaxPayloadSize (toyTx 5 6 [1, 2]) (toyState 10 7) = Some ErrNonceTooLow"
    by blast
  moreover from ok
    Validate_first_failing_check [of toyCrypto defaultMaxPayloadSize "toyTx 5 8 [1, 2]" "toyState 10 7" "?d 5 8"]
  have "Validate toyCrypto defaultMaxPayloadSize (toyTx 5 8 [1, 2]) (toyState 10 7) \<noteq> Some ErrNonceTooLow"
    by blast
  ultimately show ?thesis by blast
qed

text \<open>
  C7. A payload of exactly \<open>MaxPayloadSize\<close> bytes is accepted by \<^verbatim>\<open>newTx\<close> (given an
  amount that is present and not negative) and passes the payload check of \<^verbatim>\<open>Validate\<close>,
  which then accepts the transaction when its other checks pass. A payload of
  \<open>MaxPayloadSize + 1\<close> bytes makes \<^verbatim>\<open>newTx\<close> return \<open>ErrPayloadOversized\<close> and no
  transaction; \<^verbatim>\<open>Validate\<close> never accepts it, and answers \<open>ErrPayloadOversized\<close> once the
  checks before the payload check pass.
\<close>

theorem payload_size_boundary:
  "(0 \<le> a \<and> int (length payload) = MaxPayloadSize \<longrightarrow>
      newTx c MaxPayloadSize now from to (Some a) nonce payload =
        Inr (Some \<lparr>Hash = MustHash c (HashTxData (Some
                      \<lparr>From = from, To = to, Amount = Some a, AccountNonce = nonce,
                       Timestamp = now, Payload = payload\<rparr>)),
                   Data = Some \<lparr>From = from, To = to, Amount = Some a, AccountNonce = nonce,
                                Timestamp = now, Payload = payload\<rparr>,
                   Signature = None\<rparr>, None))
   \<and> (0 \<le> a \<and> int (length payload) = MaxPayloadSize + 1 \<longrightarrow>
      newTx c MaxPayloadSize now from to (Some a) nonce payload = Inr (None, Some ErrPayloadOversized))
   \<and> (Data tx = Some d \<and> int (length (Payload d)) = MaxPayloadSize \<longrightarrow>
      Validate c MaxPayloadSize tx statedb \<noteq> Some ErrPayloadOversized)
   \<and> (Data tx = Some d \<and> int (length (Payload d)) = MaxPayloadSize
       \<and> Amount d = Some b \<and> 0 \<le> b \<and> b \<le> GetBalance statedb (From d)
       \<and> GetNonce statedb (From d) \<le> AccountNonce d
       \<and> Signature tx = Some sig \<and> MustHash c (HashTxData (Some d)) = Hash tx
       \<and> Verify c sig (From d) (Hash tx) \<longrightarrow>
      Validate c MaxPayloadSize tx statedb = None)
   \<and> (Data tx = Some d \<and> int (length (Payload d)) = MaxPayloadSize + 1 \<longrightarrow>
      Validate c MaxPayloadSize tx statedb \<noteq> None)
   \<and> (Data tx = Some d \<and> int (length (Payload d)) = MaxPayloadSize + 1
       \<and> Amount d = Some b \<and> 0 \<le> b \<and> b \<le> GetBalance statedb (From d)
       \<and> GetNonce statedb (From d) \<le> AccountNonce d \<longrightarrow>
      Validate c MaxPayloadSize tx statedb = Some ErrPayloadOversized)"
proof -
  have new_ok: "0 \<le> a \<and> int (length payload) = MaxPayloadSize \<longrightarrow>
      newTx c MaxPayloadSize now from to (Some a) nonce payload =
        Inr (Some \<lparr>Hash = MustHash c (HashTxData (Some
                      \<lparr>From = from, To = to, Amount = Some a, AccountNonce = nonce,
                       Timestamp = now, Payload = payload\<rparr>)),
                   Data = Some \<lparr>From = from, To = to, Amount = Some a, AccountNonce = nonce,
                                Timestamp = now, Payload = payload\<rparr>,
                   Signature = None\<rparr>, None)"
    by (auto simp: newTx_def Let_def)
  have new_over: "0 \<le> a \<and> int (length payload) = MaxPayloadSize + 1 \<longrightarrow>
      newTx c MaxPayloadSize now from to (Some a) nonce payload = Inr (None, Some ErrPayloadOversized)"
    by (simp add: newTx_def)
  have val_not_over: "Data tx = Some d \<and> int (length (Payload d)) = MaxPayloadSize \<longrightarrow>
      Validate c MaxPayloadSize tx statedb \<noteq> Some ErrPayloadOversized"
    by (auto simp: Validate_def Let_def split: option.splits)
  have val_ok: "Data tx = Some d \<and> int (length (Payload d)) = MaxPayloadSize
       \<and> Amount d = Some b \<and> 0 \<le> b \<and> b \<le> GetBalance statedb (From d)
       \<and> GetNonce statedb (From d) \<le> AccountNonce d
       \<and> Signature tx = Some sig \<and> MustHash c (HashTxData (Some d)) = Hash tx
       \<and> Verify c sig (From d) (Hash tx) \<longrightarrow>
      Validate c MaxPayloadSize tx statedb = None"
    by (auto simp: Validate_def Let_def)
  have val_rej: "Data tx = Some d \<and> int (length (Payload d)) = MaxPayloadSize + 1 \<longrightarrow>
      Validate c MaxPayloadSize tx statedb \<noteq> None"
    by (auto simp: Validate_def Let_def split: option.splits)
  have val_over: "Data tx = Some d \<and> int (length (Payload d)) = MaxPayloadSize + 1
       \<and> Amount d = Some b \<and> 0 \<le> b \<and> b \<le> GetBalance statedb (From d)
       \<and> GetNonce statedb (From d) \<le> AccountNonce d \<longrightarrow>
      Validate c MaxPayloadSize tx statedb = Some ErrPayloadOversized"
    by (auto simp: Validate_def Let_def)
  from new_ok new_over val_not_over val_ok val_rej val_over show ?thesis
    by blast
qed

theorem payload_size_boundary_witness:
  "newTx toyCrypto defaultMaxPayloadSize 0 [1] (Some [2]) (Some 5) 7 (replicate 32768 0) =
     Inr (Some ((toyTx 5 7 (replicate 32768 0))\<lparr>Signature := None\<rparr>), None)
   \<and> newTx toyCrypto defaultMaxPayloadSize 0 [1] (Some [2]) (Some 5) 7 (replicate 32769 0) =
     Inr (None, Some ErrPayloadOversized)
   \<and> Validate toyCrypto defaultMaxPayloadSize (toyTx 5 7 (replicate 32768 0)) (toyState 10 7) = None
   \<and> Validate toyCrypto defaultMaxPayloadSize (toyTx 5 7 (replicate 32769 0)) (toyState 10 7) = Some ErrPayloadOversized"
proof -
  let ?P = "replicate 32768 (0::byte)" and ?Q = "replicate 32769 (0::byte)"
  let ?d = "\<lambda>p. \<lparr>From = [1], To = Some [2], Amount = Some 5, AccountNonce = 7,
                   Timestamp = 0, Payload = p :: byte list\<rparr>"
  have lenP: "(0::int) \<le> 5 \<and> int (length ?P) = defaultMaxPayloadSize"
    by (simp add: defaultMaxPayloadSize_def)
  have lenQ: "(0::int) \<le> 5 \<and> int (length ?Q) = defaultMaxPayloadSize + 1"
    by (simp add: defaultMaxPayloadSize_def)
  have validP: "Data (toyTx 5 7 ?P) = Some (?d ?P) \<and> int (length (Payload (?d ?P))) = defaultMaxPayloadSize
       \<and> Amount (?d ?P) = Some 5 \<and> (0::int) \<le> 5 \<and> 5 \<le> GetBalance (toyState 10 7) (From (?d ?P))
       \<and> GetNonce (toyState 10 7) (From (?d ?P)) \<le> AccountNonce (?d ?P)
       \<and> Signature (toyTx 5 7 ?P) = Some \<lparr>Sig = ?P\<rparr>
       \<and> MustHash toyCrypto (HashTxData (Some (?d ?P))) = Hash (toyTx 5 7 ?P)
       \<and> Verify toyCrypto \<lparr>Sig = ?P\<rparr> (From (?d ?P)) (Hash (toyTx 5 7 ?P))"
    by (simp add: toyTx_def toyState_def toyCrypto_def defaultMaxPayloadSize_def)
  have validQ: "Data (toyTx 5 7 ?Q) = Some (?d ?Q) \<and> int (length (Payload (?d ?Q))) = defaultMaxPayloadSize + 1
       \<and> Amount (?d ?Q) = Some 5 \<and> (0::int) \<le> 5 \<and> 5 \<le> GetBalance (toyState 10 7) (From (?d ?Q))
       \<and> GetNonce (toyState 10 7) (From (?d ?Q)) \<le> AccountNonce (?d ?Q)"
    by (simp add: toyTx_def toyState_def defaultMaxPayloadSize_def)
  from lenP payload_size_boundary [of 5 ?P defaultMaxPayloadSize toyCrypto 0 "[1]" "Some [2]" 7]
  have "newTx toyCrypto defaultMaxPayloadSize 0 [1] (Some [2]) (Some 5) 7 ?P =
     Inr (Some ((toyTx 5 7 ?P)\<lparr>Signature := None\<rparr>), None)"
    by (simp add: toyTx_def toyCrypto_def)
  moreover from lenQ payload_size_boundary [of 5 ?Q defaultMaxPayloadSize toyCrypto 0 "[1]" "Some [2]" 7]
  have "newTx toyCrypto defaultMaxPayloadSize 0 [1] (Some [2]) (Some 5) 7 ?Q = Inr (None, Some ErrPayloadOversized)"
    by blast
  moreover from validP
    payload_size_boundary [of 5 ?P defaultMaxPayloadSize toyCrypto 0 "[1]" "Some [2]" 7 "toyTx 5 7 ?P" "?d ?P"
      "toyState 10 7" 5 "\<lparr>Sig = ?P\<rparr>"]
  have "Validate toyCrypto defaultMaxPayloadSize (toyTx 5 7 ?P) (toyState 10 7) = None"
    by blast
  moreover from validQ
    payload_size_boundary [of 5 ?Q defaultMaxPayloadSize toyCrypto 0 "[1]" "Some [2]" 7 "toyTx 5 7 ?Q" "?d ?Q"
      "toyState 10 7" 5]
  have "Validate toyCrypto defaultMaxPayloadSize (toyTx 5 7 ?Q) (toyState 10 7) = Some ErrPayloadOversized"
    by blast
  ultimately show ?thesis by blast
qed

text \<open>
  C8, as stated: every signed transaction whose payload is changed after the hash was
  computed fails \<^verbatim>\<open>Validate\<close> with \<open>ErrHashMismatch\<close>. This fails where an earlier check
  fails first: a payload changed to \<open>MaxPayloadSize + 1\<close> bytes is answered with
  \<open>ErrPayloadOversized\<close>, and a changed payload on a transaction whose amount exceeds the
  balance with \<open>ErrBalanceNotEnough\<close>, although in both the stale signature verifies
  against the original hash bytes.
\<close>

theorem mutated_payload_not_always_hash_mismatch:
  "Validate toyCrypto defaultMaxPayloadSize (mutatePayload (Sign toyCrypto (toyTx 5 7 [1, 2]) 1) (replicate 32769 0))
      (toyState 10 7) = Some ErrPayloadOversized
   \<and> Validate toyCrypto defaultMaxPayloadSize (mutatePayload (Sign toyCrypto (toyTx 11 7 [1, 2]) 1) [3])
      (toyState 10 7) = Some ErrBalanceNotEnough
   \<and> Verify toyCrypto \<lparr>Sig = [1, 2]\<rparr> [1] (Hash (Sign toyCrypto (toyTx 5 7 [1, 2]) 1))
   \<and> Signature (mutatePayload (Sign toyCrypto (toyTx 5 7 [1, 2]) 1) (replicate 32769 0))
       = Some \<lparr>Sig = [1, 2]\<rparr>"
  by (simp add: Validate_def mutatePayload_def Sign_def toyCrypto_def toyTx_def toyState_def
      defaultMaxPayloadSize_def Let_def)

text \<open>
  C8, amended: for a signed transaction whose payload is changed after the hash was
  computed, \<^verbatim>\<open>Validate\<close> fails with \<open>ErrHashMismatch\<close> whenever the checks before the
  hash comparison pass (amount present, not negative and within the balance, nonce not
  below the state nonce, changed payload within \<open>MaxPayloadSize\<close>) and the hash of the
  changed data differs from the hash of the data that was signed. The signature
  verification is not consulted: the result is the same whatever \<^verbatim>\<open>Verify\<close> answers.
\<close>

theorem mutated_payload_hash_mismatch:
  assumes "Data tx = Some d" and "Amount d = Some a" and "0 \<le> a"
    and "a \<le> GetBalance statedb (From d)"
    and "GetNonce statedb (From d) \<le> AccountNonce d"
    and "int (length p) \<le> MaxPayloadSize"
    and "MustHash c (HashTxData (Some (d\<lparr>Payload := p\<rparr>))) \<noteq> MustHash c (HashTxData (Some d))"
  shows "Validate c MaxPayloadSize (mutatePayload (Sign c tx privKey) p) statedb = Some ErrHashMismatch
    \<and> Validate (c\<lparr>Verify := v\<rparr>) MaxPayloadSize (mutatePayload (Sign c tx privKey) p) statedb
        = Some ErrHashMismatch"
  using assms by (simp add: Validate_def mutatePayload_def Sign_def Let_def)

theorem mutated_payload_hash_mismatch_witness:
  "Validate toyCrypto defaultMaxPayloadSize (mutatePayload (Sign toyCrypto (toyTx 5 7 [1, 2]) 1) [3]) (toyState 10 7)
     = Some ErrHashMismatch
   \<and> Verify toyCrypto \<lparr>Sig = [1, 2]\<rparr> [1] (Hash (Sign toyCrypto (toyTx 5 7 [1, 2]) 1))"
proof -
  let ?d = "\<lparr>From = [1], To = Some [2], Amount = Some 5, AccountNonce = 7,
             Timestamp = 0, Payload = [1, 2 :: byte]\<rparr>"
  have d: "Data (toyTx 5 7 [1, 2]) = Some ?d"
    by (simp add: toyTx_def)
  have a: "Amount ?d = Some 5" "(0::int) \<le> 5" "5 \<le> GetBalance (toyState 10 7) (From ?d)"
    "GetNonce (toyState 10 7) (From ?d) \<le> AccountNonce ?d"
    by (simp_all add: toyState_def)
  have p: "int (length [3 :: byte]) \<le> defaultMaxPayloadSize"
    by (simp add: defaultMaxPayloadSize_def)
  have h: "MustHash toyCrypto (HashTxData (Some (?d\<lparr>Payload := [3]\<rparr>)))
      \<noteq> MustHash toyCrypto (HashTxData (Some ?d))"
    by (simp add: toyCrypto_def)
  have stale: "Verify toyCrypto \<lparr>Sig = [1, 2]\<rparr> [1] (Hash (Sign toyCrypto (toyTx 5 7 [1, 2]) 1))"
    by (simp add: Sign_def toyCrypto_def toyTx_def Let_def)
  from mutated_payload_hash_mismatch [OF d a p h, of 1] stale show ?thesis
    by blast
qed

text \<open>
  C9. \<^verbatim>\<open>MerkleRootHash\<close> of the empty list is the sentinel \<^verbatim>\<open>emptyTxRootHash\<close>, the
  hash of the string "empty transaction root hash", whatever the tree construction is.
  The result is a \<^verbatim>\<open>common.Hash\<close> value: a byte array, which has no null.
\<close>

theorem MerkleRootHash_empty:
  "MerkleRootHash c merkleRoot [] = emptyTxRootHash c
   \<and> emptyTxRootHash c = MustHash c (HashString ''empty transaction root hash'')"
  by (simp add: MerkleRootHash_def emptyTxRootHash_def)

text \<open>
  C10, as stated: for every amount that is present and not negative \<^verbatim>\<open>NewTransaction\<close>
  returns a transaction, the error it discards being unreachable with the nil payload.
  The test is \<^verbatim>\<open>len(payload) > MaxPayloadSize\<close> against a variable: once the variable is
  negative the nil payload is oversized, \<^verbatim>\<open>newTx\<close> returns no transaction and
  \<open>ErrPayloadOversized\<close>, and \<^verbatim>\<open>NewTransaction\<close> drops the error and returns nil.
\<close>

theorem NewTransaction_nil_when_limit_negative:
  "NewTransaction toyCrypto (- 1) 9 [1] [2] (Some 5) 7 = Inr None
   \<and> newTx toyCrypto (- 1) 9 [1] (Some [2]) (Some 5) 7 [] = Inr (None, Some ErrPayloadOversized)"
  by (simp add: NewTransaction_def newTx_def)

text \<open>
  C10, amended: while \<^verbatim>\<open>MaxPayloadSize\<close> is not negative (it is initialised to 32768), for
  every amount that is present and not negative \<^verbatim>\<open>NewTransaction\<close> returns a transaction
  (not nil) whose hash is the hash of the data it was built with; with the nil payload
  that \<^verbatim>\<open>NewTransaction\<close> passes, \<^verbatim>\<open>newTx\<close> then never returns an error, so the discarded
  error is always nil.
\<close>

theorem NewTransaction_total:
  assumes "0 \<le> MaxPayloadSize"
  shows "(0 \<le> a \<longrightarrow>
      NewTransaction c MaxPayloadSize now from to (Some a) nonce =
        Inr (Some \<lparr>Hash = MustHash c (HashTxData (Some
                      \<lparr>From = from, To = Some to, Amount = Some a, AccountNonce = nonce,
                       Timestamp = now, Payload = []\<rparr>)),
                   Data = Some \<lparr>From = from, To = Some to, Amount = Some a,
                                AccountNonce = nonce, Timestamp = now, Payload = []\<rparr>,
                   Signature = None\<rparr>))
   \<and> (0 \<le> a \<longrightarrow> (\<forall>tx. NewTransaction c MaxPayloadSize now from to (Some a) nonce = Inr (Some tx)
        \<longrightarrow> Hash tx = CalculateHash c tx))
   \<and> (\<forall>tx err. newTx c MaxPayloadSize now from (Some to) amount nonce [] = Inr (tx, err)
        \<longrightarrow> err = None \<and> tx \<noteq> None)"
  using assms
  by (auto simp: NewTransaction_def newTx_def CalculateHash_def Let_def
      split: option.splits if_splits)

theorem NewTransaction_total_witness:
  "NewTransaction toyCrypto defaultMaxPayloadSize 9 [1] [2] (Some 5) 7 =
     Inr (Some ((toyTx 5 7 [])\<lparr>Signature := None,
        Data := Some \<lparr>From = [1], To = Some [2], Amount = Some 5, AccountNonce = 7,
                      Timestamp = 9, Payload = []\<rparr>\<rparr>))
   \<and> NewTransaction toyCrypto 0 9 [1] [2] (Some 5) 7 =
     Inr (Some ((toyTx 5 7 [])\<lparr>Signature := None,
        Data := Some \<lparr>From = [1], To = Some [2], Amount = Some 5, AccountNonce = 7,
                      Timestamp = 9, Payload = []\<rparr>\<rparr>))
   \<and> newTx toyCrypto defaultMaxPayloadSize 9 [1] (Some [2]) (Some 0) 7 []
       \<noteq> Inr (None, Some ErrPayloadOversized)"
proof -
  have h: "(0::int) \<le> 5" by simp
  have l: "0 \<le> defaultMaxPayloadSize" by (simp add: defaultMaxPayloadSize_def)
  have z: "(0::int) \<le> 0" by simp
  from h NewTransaction_total [OF l, of 5 toyCrypto 9 "[1]" "[2]" 7]
  have "NewTransaction toyCrypto defaultMaxPayloadSize 9 [1] [2] (Some 5) 7 =
     Inr (Some ((toyTx 5 7 [])\<lparr>Signature := None,
        Data := Some \<lparr>From = [1], To = Some [2], Amount = Some 5, AccountNonce = 7,
                      Timestamp = 9, Payload = []\<rparr>\<rparr>))"
    by (simp add: toyTx_def toyCrypto_def)
  moreover from h NewTransaction_total [OF z, of 5 toyCrypto 9 "[1]" "[2]" 7]
  have "NewTransaction toyCrypto 0 9 [1] [2] (Some 5) 7 =
     Inr (Some ((toyTx 5 7 [])\<lparr>Signature := None,
        Data := Some \<lparr>From = [1], To = Some [2], Amount = Some 5, AccountNonce = 7,
                      Timestamp = 9, Payload = []\<rparr>\<rparr>))"
    by (simp add: toyTx_def toyCrypto_def)
  moreover from NewTransaction_total [OF l, of 5 toyCrypto 9 "[1]" "[2]" 7 "Some 0"]
  have "newTx toyCrypto defaultMaxPayloadSize 9 [1] (Some [2]) (Some 0) 7 []
      \<noteq> Inr (None, Some ErrPayloadOversized)"
    by blast
  ultimately show ?thesis by blast
qed

section \<open>Properties of the nonce search\<close>

lemma SetBytes_snoc: "SetBytes (bs @ [b]) = SetBytes bs * 256 + uint b"
  by (simp add: SetBytes_def)

lemma SetBytes_range: "0 \<le> SetBytes bs \<and> SetBytes bs < 256 ^ length bs"
proof (induction bs rule: rev_induct)
  case Nil
  show ?case by (simp add: SetBytes_def)
next
  case (snoc b bs)
  have "uint b < 256" using uint_bounded [of b] by simp
  moreover have "0 \<le> uint b" by simp
  ultimately show ?case using snoc by (simp add: SetBytes_snoc)
qed

lemma mineStep_Found:
  assumes "mineStep lib sch t blk target seed mn mx i nonce = Inl (Found r)"
  shows "r = \<lparr>task = t,
              block = blk\<lparr>Header := (Header blk)\<lparr>Nonce := nonce\<rparr>,
                          HeaderHash := BlockHeaderHash lib ((Header blk)\<lparr>Nonce := nonce\<rparr>)\<rparr>\<rparr>
         \<and> SetBytes (BlockHeaderHash lib ((Header blk)\<lparr>Nonce := nonce\<rparr>)) \<le> target"
  using assms by (auto simp: mineStep_def Let_def split: if_splits)

lemma mineLoop_Found:
  assumes "mineLoop lib sch t blk target seed mn mx i nonce = Some e"
  shows "\<forall>r. e = Found r \<longrightarrow>
           task r = t
         \<and> Difficulty (Header (block r)) = Difficulty (Header blk)
         \<and> HeaderHash (block r) = BlockHeaderHash lib (Header (block r))
         \<and> SetBytes (HeaderHash (block r)) \<le> target"
proof (rule mineLoop.raw_induct [where P = "\<lambda>lib sch t blk target seed mn mx i nonce e.
         \<forall>r. e = Found r \<longrightarrow>
           task r = t
         \<and> Difficulty (Header (block r)) = Difficulty (Header blk)
         \<and> HeaderHash (block r) = BlockHeaderHash lib (Header (block r))
         \<and> SetBytes (HeaderHash (block r)) \<le> target"], goal_cases)
  case (1 loop lib sch t blk target seed mn mx i nonce e)
  show ?case
  proof (cases "mineStep lib sch t blk target seed mn mx i nonce")
    case (Inl e')
    with 1(2) have "e' = e" by simp
    with Inl show ?thesis by (auto dest: mineStep_Found)
  next
    case (Inr nonce')
    with 1(2) have "loop lib sch t blk target seed mn mx (Suc i) nonce' = Some e" by simp
    then show ?thesis by (rule 1(1))
  qed
qed (rule assms)

text \<open>
  C2. Whenever \<open>StartMining\<close> sends a result that is not nil, the header hash stored in
  the delivered block, read as an unsigned big-endian integer of the hash's width, is at
  most the target of the block's difficulty, and hashing the delivered header (with the
  nonce stored in it) gives the stored header hash again.
\<close>

theorem StartMining_delivered_block_meets_target:
  assumes "StartMining lib pw sch t seed mn mx = Some e" and "sent e = Some (Some r)"
  shows "0 \<le> SetBytes (HeaderHash (block r))
       \<and> SetBytes (HeaderHash (block r)) < 256 ^ length (HeaderHash (block r))
       \<and> SetBytes (HeaderHash (block r)) \<le> GetMiningTarget pw (Difficulty (Header (block r)))
       \<and> BlockHeaderHash lib (Header (block r)) = HeaderHash (block r)
       \<and> task r = t"
proof -
  from assms(2) have e: "e = Found r" by (cases e) simp_all
  from assms(1) have "mineLoop lib sch t (generateBlock lib t)
      (GetMiningTarget pw (Difficulty (Header (generateBlock lib t)))) seed mn mx 0 seed = Some e"
    by (simp add: StartMining_def Let_def)
  from mineLoop_Found [OF this] e SetBytes_range [of "HeaderHash (block r)"]
  show ?thesis by auto
qed

theorem StartMining_delivered_block_meets_target_witness:
  "StartMining toyLib toyPow quiet toyTask 255 0 300 =
     Some (Found \<lparr>task = toyTask,
                  block = \<lparr>HeaderHash = [0, 0, 0, 0],
                           Header = (header toyTask)\<lparr>Nonce := 256\<rparr>, Transactions = []\<rparr>\<rparr>)
   \<and> SetBytes [0, 0, 0, 0] \<le> GetMiningTarget toyPow 10
   \<and> BlockHeaderHash toyLib ((header toyTask)\<lparr>Nonce := 256\<rparr>) = [0, 0, 0, 0]"
proof -
  let ?r = "\<lparr>task = toyTask,
                  block = \<lparr>HeaderHash = [0, 0, 0, 0],
                           Header = (header toyTask)\<lparr>Nonce := 256\<rparr>, Transactions = []\<rparr>\<rparr>"
  have run: "StartMining toyLib toyPow quiet toyTask 255 0 300 = Some (Found ?r)"
    by (simp add: StartMining_def mineLoop.simps mineStep_def toyLib_def toyPow_def quiet_def
        toyTask_def generateBlock_def SetBytes_def Let_def)
  have s: "sent (Found ?r) = Some (Some ?r)" by simp
  from StartMining_delivered_block_meets_target [OF run s] run show ?thesis
    by (simp add: toyTask_def)
qed

subsection \<open>Termination of the search\<close>

text \<open>
  With the seed above \<open>min\<close> the nonce runs from the seed up to \<open>max\<close>, then from
  \<open>min + 1\<close> up to \<open>seed - 1\<close>, where the outage is reported: every iteration that
  stays in the loop moves one nonce ahead, so the worker leaves the loop whatever the
  other threads and the hashes do.
\<close>

lemma mineStep_progress:
  assumes "mn < seed" and "seed \<le> mx"
    and "(seed \<le> nonce \<and> nonce \<le> mx) \<or> (mn < nonce \<and> nonce < seed)"
    and "mineStep lib sch t blk target seed mn mx i nonce = Inr nonce'"
  shows "((seed \<le> nonce' \<and> nonce' \<le> mx) \<or> (mn < nonce' \<and> nonce' < seed))
       \<and> remaining seed mx nonce' < remaining seed mx nonce"
proof (cases "nonce = mx")
  case True
  from assms(4) True have n: "nonce' = mn + 1" and ne: "mn \<noteq> seed - 1"
    by (auto simp: mineStep_def Let_def split: if_splits)
  have "mn < mn + 1 \<and> mn + 1 < seed" using assms(1) ne by unat_arith
  moreover have "unat seed - unat (mn + 1) < unat mx - unat mx + unat seed"
    using assms(1) ne by unat_arith
  ultimately show ?thesis using n True assms(2) by (auto simp: remaining_def)
next
  case False
  from assms(4) False have n: "nonce' = nonce + 1" and ne: "nonce \<noteq> seed - 1"
    by (auto simp: mineStep_def Let_def split: if_splits)
  show ?thesis
  proof (cases "seed \<le> nonce")
    case True
    have "seed \<le> nonce + 1 \<and> nonce + 1 \<le> mx" using True False assms(1-3) by unat_arith
    moreover have "unat mx - unat (nonce + 1) + unat seed < unat mx - unat nonce + unat seed"
      using True False assms(1-3) by unat_arith
    ultimately show ?thesis using n True by (simp add: remaining_def)
  next
    case lt: False
    have "mn < nonce + 1 \<and> nonce + 1 < seed \<and> \<not> seed \<le> nonce + 1"
      using lt ne assms(1-3) by unat_arith
    moreover have "unat seed - unat (nonce + 1) < unat seed - unat nonce"
      using lt ne assms(1-3) by unat_arith
    ultimately show ?thesis using n lt by (simp add: remaining_def)
  qed
qed

lemma mineLoop_terminates:
  assumes "mn < seed" and "seed \<le> mx"
    and "(seed \<le> nonce \<and> nonce \<le> mx) \<or> (mn < nonce \<and> nonce < seed)"
  shows "\<exists>e. mineLoop lib sch t blk target seed mn mx i nonce = Some e"
  using assms(3)
proof (induction "remaining seed mx nonce" arbitrary: i nonce rule: less_induct)
  case less
  show ?case
  proof (cases "mineStep lib sch t blk target seed mn mx i nonce")
    case (Inl e)
    then show ?thesis by (subst mineLoop.simps) simp
  next
    case (Inr nonce')
    from mineStep_progress [OF assms(1,2) less.prems Inr]
    have inv: "(seed \<le> nonce' \<and> nonce' \<le> mx) \<or> (mn < nonce' \<and> nonce' < seed)"
      and dec: "remaining seed mx nonce' < remaining seed mx nonce" by simp_all
    from less.hyps [OF dec inv, of "Suc i"] Inr show ?thesis
      by (subst mineLoop.simps) simp
  qed
qed

lemma StartMining_terminates:
  assumes "mn < seed" and "seed \<le> mx"
  shows "\<exists>e. StartMining lib pw sch t seed mn mx = Some e"
  unfolding StartMining_def Let_def
  by (rule mineLoop_terminates [OF assms]) (use assms(2) in simp)

text \<open>
  In a quiet round with no good nonce above \<open>min\<close> the worker reports the outage,
  whatever the hash at \<open>min\<close> is: that nonce is not among those it tries.
\<close>

lemma mineStep_quiet_exit:
  assumes "\<not> abortClosed sch i" and "\<not> nonceFound sch i" and "\<not> sendAborted sch i"
    and "\<not> SetBytes (BlockHeaderHash lib ((Header blk)\<lparr>Nonce := nonce\<rparr>)) \<le> target"
    and "mineStep lib sch t blk target seed mn mx i nonce = Inl e"
  shows "e = Outage"
  using assms by (auto simp: mineStep_def Let_def split: if_splits)

lemma mineLoop_outage:
  assumes "mn < seed" and "seed \<le> mx"
    and "\<forall>j. \<not> abortClosed sch j \<and> \<not> nonceFound sch j \<and> \<not> sendAborted sch j"
    and "\<forall>n. mn < n \<and> n \<le> mx \<longrightarrow>
           \<not> SetBytes (BlockHeaderHash lib ((Header blk)\<lparr>Nonce := n\<rparr>)) \<le> target"
    and "(seed \<le> nonce \<and> nonce \<le> mx) \<or> (mn < nonce \<and> nonce < seed)"
  shows "mineLoop lib sch t blk target seed mn mx i nonce = Some Outage"
  using assms(5)
proof (induction "remaining seed mx nonce" arbitrary: i nonce rule: less_induct)
  case less
  have "mn < nonce \<and> nonce \<le> mx" using less.prems assms(1,2) by unat_arith
  with assms(4)
  have bad: "\<not> SetBytes (BlockHeaderHash lib ((Header blk)\<lparr>Nonce := nonce\<rparr>)) \<le> target"
    by blast
  show ?case
  proof (cases "mineStep lib sch t blk target seed mn mx i nonce")
    case (Inl e)
    with mineStep_quiet_exit [OF _ _ _ bad Inl] assms(3) have "e = Outage" by blast
    with Inl show ?thesis by (subst mineLoop.simps) simp
  next
    case (Inr nonce')
    from mineStep_progress [OF assms(1,2) less.prems Inr]
    have inv: "(seed \<le> nonce' \<and> nonce' \<le> mx) \<or> (mn < nonce' \<and> nonce' < seed)"
      and dec: "remaining seed mx nonce' < remaining seed mx nonce" by simp_all
    from less.hyps [OF dec inv, of "Suc i"] Inr show ?thesis
      by (subst mineLoop.simps) simp
  qed
qed

lemma StartMining_never_tries_min:
  assumes "mn < seed" and "seed \<le> mx"
    and "\<forall>j. \<not> abortClosed sch j \<and> \<not> nonceFound sch j \<and> \<not> sendAborted sch j"
    and "\<forall>n. mn < n \<and> n \<le> mx \<longrightarrow>
           \<not> SetBytes (BlockHeaderHash lib ((Header (generateBlock lib t))\<lparr>Nonce := n\<rparr>))
               \<le> GetMiningTarget pw (Difficulty (Header (generateBlock lib t)))"
  shows "StartMining lib pw sch t seed mn mx = Some Outage"
  unfolding StartMining_def Let_def
  by (rule mineLoop_outage [OF assms]) (use assms(2) in simp)

text \<open>
  C3, at seed 2 in the range from 0 to 3, in a quiet round where the only good nonce of
  the range is 0: the worker tries 2, 3 and 1 and reports the outage (the nil result).
  The nonce \<open>min\<close> is never tried: on reaching \<open>max\<close> the nonce is set to \<open>min\<close> and
  incremented before the next hash.
\<close>

theorem StartMining_outage_skips_min:
  "StartMining toyLib toyPow quiet toyTask 2 0 3 = Some Outage
   \<and> SetBytes (BlockHeaderHash toyLib ((Header (generateBlock toyLib toyTask))\<lparr>Nonce := 0\<rparr>))
       \<le> GetMiningTarget toyPow (Difficulty (Header (generateBlock toyLib toyTask)))"
  by (simp add: StartMining_def mineLoop.simps mineStep_def toyLib_def toyPow_def quiet_def
        toyTask_def generateBlock_def SetBytes_def Let_def)

text \<open>
  With the seed at \<open>min\<close> (and \<open>min < max\<close>) the nonce stays between \<open>min + 1\<close> and
  \<open>max\<close> after the first iteration and never equals \<open>seed - 1\<close>: in a round with no
  abort, no nonce found elsewhere and no good nonce in the range, the loop is never left.
\<close>

lemma mineStep_seed_at_min:
  assumes "mn < mx" and "mn < nonce" and "nonce \<le> mx"
    and "\<not> abortClosed sch i" and "\<not> nonceFound sch i"
    and "\<not> SetBytes (BlockHeaderHash lib ((Header blk)\<lparr>Nonce := nonce\<rparr>)) \<le> target"
  shows "\<exists>nonce'. mineStep lib sch t blk target mn mn mx i nonce = Inr nonce'
           \<and> mn < nonce' \<and> nonce' \<le> mx"
proof (cases "nonce = mx")
  case True
  have a: "mn \<noteq> mn - 1" by simp
  have b: "mn < mn + 1 \<and> mn + 1 \<le> mx" using assms(1) by unat_arith
  from True a b assms(4-6) show ?thesis
    by (simp add: mineStep_def Let_def)
next
  case False
  have a: "nonce \<noteq> mn - 1" using assms(1-3) False by unat_arith
  have b: "mn < nonce + 1 \<and> nonce + 1 \<le> mx" using assms(1-3) False by unat_arith
  from False a b assms(4-6) show ?thesis
    by (simp add: mineStep_def Let_def)
qed

lemma mineLoop_seed_at_min:
  assumes run: "mineLoop lib sch t blk target seed mn mx i nonce = Some e"
  shows "\<not> (seed = mn \<and> mn < mx \<and> mn < nonce \<and> nonce \<le> mx
            \<and> (\<forall>j. \<not> abortClosed sch j \<and> \<not> nonceFound sch j)
            \<and> (\<forall>n. mn < n \<and> n \<le> mx \<longrightarrow>
                  \<not> SetBytes (BlockHeaderHash lib ((Header blk)\<lparr>Nonce := n\<rparr>)) \<le> target))"
proof (rule mineLoop.raw_induct [where P = "\<lambda>lib sch t blk target seed mn mx i nonce e.
         \<not> (seed = mn \<and> mn < mx \<and> mn < nonce \<and> nonce \<le> mx
            \<and> (\<forall>j. \<not> abortClosed sch j \<and> \<not> nonceFound sch j)
            \<and> (\<forall>n. mn < n \<and> n \<le> mx \<longrightarrow>
                  \<not> SetBytes (BlockHeaderHash lib ((Header blk)\<lparr>Nonce := n\<rparr>)) \<le> target))"],
    goal_cases)
  case (1 loop lib sch t blk target seed mn mx i nonce e)
  show ?case
  proof
    assume h: "seed = mn \<and> mn < mx \<and> mn < nonce \<and> nonce \<le> mx
            \<and> (\<forall>j. \<not> abortClosed sch j \<and> \<not> nonceFound sch j)
            \<and> (\<forall>n. mn < n \<and> n \<le> mx \<longrightarrow>
                  \<not> SetBytes (BlockHeaderHash lib ((Header blk)\<lparr>Nonce := n\<rparr>)) \<le> target)"
    then obtain nonce' where s: "mineStep lib sch t blk target mn mn mx i nonce = Inr nonce'"
      and r: "mn < nonce'" "nonce' \<le> mx"
      using mineStep_seed_at_min [of mn mx nonce sch i lib blk target t] by blast
    from 1(2) s h have "loop lib sch t blk target seed mn mx (Suc i) nonce' = Some e"
      by simp
    from 1(1) [OF this] h r show False by blast
  qed
qed (rule run)

lemma seed_at_min_never_exits:
  assumes "mn < mx"
    and "\<forall>j. \<not> abortClosed sch j \<and> \<not> nonceFound sch j"
    and "\<forall>n. mn \<le> n \<and> n \<le> mx \<longrightarrow>
           \<not> SetBytes (BlockHeaderHash lib ((Header (generateBlock lib t))\<lparr>Nonce := n\<rparr>))
               \<le> GetMiningTarget pw (Difficulty (Header (generateBlock lib t)))"
  shows "StartMining lib pw sch t mn mn mx = None"
proof -
  let ?blk = "generateBlock lib t"
  let ?target = "GetMiningTarget pw (Difficulty (Header ?blk))"
  have a: "mn \<noteq> mx" "mn \<noteq> mn - 1" using assms(1) by simp_all
  have b: "mn < mn + 1 \<and> mn + 1 \<le> mx" using assms(1) by unat_arith
  have c: "\<not> SetBytes (BlockHeaderHash lib ((Header ?blk)\<lparr>Nonce := mn\<rparr>)) \<le> ?target"
    using assms(1,3) by simp
  have s: "mineStep lib sch t ?blk ?target mn mn mx 0 mn = Inr (mn + 1)"
    using a c assms(2) by (simp add: mineStep_def Let_def)
  have first: "StartMining lib pw sch t mn mn mx = mineLoop lib sch t ?blk ?target mn mn mx (Suc 0) (mn + 1)"
    unfolding StartMining_def Let_def
    by (subst mineLoop.simps) (simp add: s)
  have bad: "\<forall>n. mn < n \<and> n \<le> mx \<longrightarrow>
      \<not> SetBytes (BlockHeaderHash lib ((Header ?blk)\<lparr>Nonce := n\<rparr>)) \<le> ?target"
    using assms(3) by (simp add: less_imp_le)
  have "mineLoop lib sch t ?blk ?target mn mn mx (Suc 0) (mn + 1) \<noteq> Some e" for e
    using mineLoop_seed_at_min [of lib sch t ?blk ?target mn mn mx "Suc 0" "mn + 1" e]
      assms(1,2) b bad by blast
  with first show ?thesis by (cases "StartMining lib pw sch t mn mn mx") auto
qed

text \<open>
  C4, at seed 1 in the range from 1 to 2, in a quiet round with no good nonce in the
  range: the worker never leaves the loop. With the seed at \<open>min\<close> the value \<open>seed - 1\<close>
  is outside the range, so the outage test never succeeds.
\<close>

theorem StartMining_seed_is_min_never_returns:
  "StartMining toyLib toyPow quiet toyTask 1 1 2 = None"
proof (rule seed_at_min_never_exits)
  show "(1::uint64) < 2" by simp
  show "\<forall>j. \<not> abortClosed quiet j \<and> \<not> nonceFound quiet j"
    by (simp add: quiet_def)
  show "\<forall>n::uint64. 1 \<le> n \<and> n \<le> 2 \<longrightarrow>
          \<not> SetBytes (BlockHeaderHash toyLib ((Header (generateBlock toyLib toyTask))\<lparr>Nonce := n\<rparr>))
              \<le> GetMiningTarget toyPow (Difficulty (Header (generateBlock toyLib toyTask)))"
  proof (intro allI impI)
    fix n :: uint64 assume "1 \<le> n \<and> n \<le> 2"
    then have "n = 1 \<or> n = 2" by unat_arith
    then show "\<not> SetBytes (BlockHeaderHash toyLib ((Header (generateBlock toyLib toyTask))\<lparr>Nonce := n\<rparr>))
              \<le> GetMiningTarget toyPow (Difficulty (Header (generateBlock toyLib toyTask)))"
      by (auto simp: toyLib_def toyPow_def toyTask_def generateBlock_def SetBytes_def)
  qed
qed

section \<open>Properties of the task assembly\<close>

text \<open>The reward step, and what one round of the loop reads and writes.\<close>

lemma creditCoinbase_balance:
  "StatedbGetBalance (creditCoinbase db coinbase amount) a =
     StatedbGetBalance db a + (if a = coinbase then amount else 0)"
  by (simp add: creditCoinbase_def GetOrNewStateObject_def AddAmount_def StatedbGetBalance_def
      split: option.splits)

lemma creditCoinbase_nonce:
  "StatedbGetNonce (creditCoinbase db coinbase amount) a = StatedbGetNonce db a"
  by (simp add: creditCoinbase_def GetOrNewStateObject_def AddAmount_def StatedbGetNonce_def
      split: option.splits)

lemma NewTransaction_reward:
  "0 \<le> MaxPayloadSize \<Longrightarrow> 0 \<le> amount \<Longrightarrow>
     NewTransaction c MaxPayloadSize now zeroAddress coinbase (Some amount) 0 =
       Inr (Some ((rewardTx c now coinbase amount)\<lparr>Signature := None\<rparr>))"
  by (simp add: NewTransaction_def newTx_def rewardTx_def Let_def)

lemma applyTransactions_eq:
  assumes "0 \<le> sint (GetReward pw blockHeight)" and "0 \<le> MaxPayloadSize"
  shows "applyTransactions c MaxPayloadSize pw seele Commit now s blockHeight candidates =
     (let rewardValue = sint (GetReward pw blockHeight);
          s2 = applyLoop c MaxPayloadSize seele candidates
                 (s\<lparr>curState := creditCoinbase (curState s) (GetCoinbase seele) rewardValue,
                    curTask := (curTask s)\<lparr>txs := txs (curTask s) @
                                 [rewardTx c now (GetCoinbase seele) rewardValue]\<rparr>\<rparr>)
      in Inr (s2\<lparr>curEvents := curEvents s2 @
                   [LogInfo ''mining block height:%d, reward:%s, transaction number:%d''
                      [ArgUint64 blockHeight, ArgBigInt rewardValue,
                       ArgInt (int (length (txs (curTask s2))))]],
                 curTask := (curTask s2)\<lparr>header := (header (curTask s2))\<lparr>StateHash :=
                                 Commit (curState s2)\<rparr>\<rparr>\<rparr>, None))"
  using assms
  by (simp add: applyTransactions_def NewTransaction_reward creditCoinbase_def Let_def
      rewardTx_def split: prod.splits)

lemma applyOne_txs:
  "txs (curTask (applyOne c MaxPayloadSize seele tx s)) =
     txs (curTask s) @ (if Validate c MaxPayloadSize tx (asStateDB (curState s)) = None then [tx] else [])"
  by (simp add: applyOne_def Let_def split: option.splits prod.splits)

lemma applyLoop_txs:
  "\<exists>accepted. txs (curTask (applyLoop c MaxPayloadSize seele candidates s)) = txs (curTask s) @ accepted
      \<and> set accepted \<subseteq> set candidates"
proof (induction candidates arbitrary: s)
  case Nil
  show ?case by simp
next
  case (Cons tx rest)
  from Cons [of "applyOne c MaxPayloadSize seele tx s"] obtain accepted where
    "txs (curTask (applyLoop c MaxPayloadSize seele rest (applyOne c MaxPayloadSize seele tx s))) =
       txs (curTask (applyOne c MaxPayloadSize seele tx s)) @ accepted" "set accepted \<subseteq> set rest"
    by blast
  then show ?case
    by (auto simp: applyOne_txs intro!: exI [of _ "(if Validate c MaxPayloadSize tx (asStateDB (curState s)) = None then [tx] else []) @ accepted"])
qed

lemma applyTransactions_afterReward:
  assumes "0 \<le> sint (GetReward pw blockHeight)" and "0 \<le> MaxPayloadSize"
  shows "applyTransactions c MaxPayloadSize pw seele Commit now s blockHeight candidates =
     Inr ((applyLoop c MaxPayloadSize seele candidates (afterReward c pw seele now s blockHeight))
           \<lparr>curEvents := curEvents (applyLoop c MaxPayloadSize seele candidates (afterReward c pw seele now s blockHeight)) @
                   [LogInfo ''mining block height:%d, reward:%s, transaction number:%d''
                      [ArgUint64 blockHeight, ArgBigInt (sint (GetReward pw blockHeight)),
                       ArgInt (int (length (txs (curTask (applyLoop c MaxPayloadSize seele candidates (afterReward c pw seele now s blockHeight))))))]],
            curTask := (curTask (applyLoop c MaxPayloadSize seele candidates (afterReward c pw seele now s blockHeight)))
                 \<lparr>header := (header (curTask (applyLoop c MaxPayloadSize seele candidates (afterReward c pw seele now s blockHeight))))
                    \<lparr>StateHash := Commit (curState (applyLoop c MaxPayloadSize seele candidates (afterReward c pw seele now s blockHeight)))\<rparr>\<rparr>\<rparr>, None)"
  using applyTransactions_eq [OF assms, of c seele Commit now s candidates]
  by (simp add: Let_def afterReward_def)

lemma applyTransactions_returns_nil:
  "applyTransactions c MaxPayloadSize pw seele Commit now s blockHeight candidates = Inr (s', e) \<Longrightarrow> e = None"
  by (auto simp: applyTransactions_def Let_def split: sum.splits option.splits prod.splits)

lemma applyOne_events:
  "curEvents (applyOne c MaxPayloadSize seele tx s) =
     curEvents s @ candidateEvents tx (Validate c MaxPayloadSize tx (asStateDB (curState s)))"
  by (simp add: applyOne_def candidateEvents_def Let_def split: option.splits prod.splits)

lemma applyOne_pool:
  "curPool (applyOne c MaxPayloadSize seele tx s) = RemoveTransaction (curPool s) (Hash tx)"
  by (simp add: applyOne_def Let_def split: option.splits prod.splits)

lemma applyOne_failing:
  assumes "Validate c MaxPayloadSize tx (asStateDB (curState s)) = Some e"
  shows "applyOne c MaxPayloadSize seele tx s =
     s\<lparr>curPool := RemoveTransaction (curPool s) (Hash tx),
       curEvents := curEvents s @ [EvRemoveTransaction (Hash tx), EvValidate (Hash tx) (Some e),
          LogError ''validating tx failed, for %s'' [ArgString (Error e)]]\<rparr>"
  using assms by (simp add: applyOne_def Let_def)

lemma applyLoop_append:
  "applyLoop c MaxPayloadSize seele (xs @ ys) s = applyLoop c MaxPayloadSize seele ys (applyLoop c MaxPayloadSize seele xs s)"
  by (induction xs arbitrary: s) simp_all

lemma applyOne_curTask:
  "curTask (applyOne c MaxPayloadSize seele tx s) =
     (case Validate c MaxPayloadSize tx (asStateDB (curState s)) of
        Some e \<Rightarrow> curTask s
      | None \<Rightarrow> (curTask s)\<lparr>header :=
            snd (ApplyTransaction seele tx (GetCoinbase seele) (curState s) (header (curTask s))),
          txs := txs (curTask s) @ [tx]\<rparr>)"
  by (simp add: applyOne_def Let_def split: option.splits prod.splits)

lemma applyOne_curState:
  "curState (applyOne c MaxPayloadSize seele tx s) =
     (case Validate c MaxPayloadSize tx (asStateDB (curState s)) of
        Some e \<Rightarrow> curState s
      | None \<Rightarrow>
          fst (ApplyTransaction seele tx (GetCoinbase seele) (curState s) (header (curTask s))))"
  by (simp add: applyOne_def Let_def split: option.splits prod.splits)

lemma applyOne_core:
  assumes "curTask s = curTask s'" and "curState s = curState s'"
  shows "curTask (applyOne c MaxPayloadSize seele tx s) = curTask (applyOne c MaxPayloadSize seele tx s')
       \<and> curState (applyOne c MaxPayloadSize seele tx s) = curState (applyOne c MaxPayloadSize seele tx s')"
  unfolding applyOne_curTask applyOne_curState assms by simp

lemma applyLoop_core:
  assumes "curTask s = curTask s'" and "curState s = curState s'"
  shows "curTask (applyLoop c MaxPayloadSize seele cs s) = curTask (applyLoop c MaxPayloadSize seele cs s')
       \<and> curState (applyLoop c MaxPayloadSize seele cs s) = curState (applyLoop c MaxPayloadSize seele cs s')"
  using assms
proof (induction cs arbitrary: s s')
  case Nil
  then show ?case by simp
next
  case (Cons tx rest)
  from applyOne_core [OF Cons.prems, of c MaxPayloadSize seele tx]
  have "curTask (applyOne c MaxPayloadSize seele tx s) = curTask (applyOne c MaxPayloadSize seele tx s')"
    and "curState (applyOne c MaxPayloadSize seele tx s) = curState (applyOne c MaxPayloadSize seele tx s')" by simp_all
  from Cons.IH [OF this] show ?case by simp
qed

lemma applyLoop_drop_failing:
  assumes "Validate c MaxPayloadSize tx (asStateDB (curState (applyLoop c MaxPayloadSize seele xs s))) = Some e"
  shows "curTask (applyLoop c MaxPayloadSize seele (xs @ tx # ys) s) = curTask (applyLoop c MaxPayloadSize seele (xs @ ys) s)
       \<and> curState (applyLoop c MaxPayloadSize seele (xs @ tx # ys) s) = curState (applyLoop c MaxPayloadSize seele (xs @ ys) s)"
proof -
  let ?m = "applyLoop c MaxPayloadSize seele xs s"
  have "curTask (applyOne c MaxPayloadSize seele tx ?m) = curTask ?m \<and> curState (applyOne c MaxPayloadSize seele tx ?m) = curState ?m"
    by (simp add: applyOne_failing [OF assms])
  then have "curTask (applyLoop c MaxPayloadSize seele ys (applyOne c MaxPayloadSize seele tx ?m)) = curTask (applyLoop c MaxPayloadSize seele ys ?m)
       \<and> curState (applyLoop c MaxPayloadSize seele ys (applyOne c MaxPayloadSize seele tx ?m)) = curState (applyLoop c MaxPayloadSize seele ys ?m)"
    using applyLoop_core [of "applyOne c MaxPayloadSize seele tx ?m" ?m c MaxPayloadSize seele ys] by blast
  then show ?thesis by (simp add: applyLoop_append)
qed

lemma applyLoop_pool:
  "curPool (applyLoop c MaxPayloadSize seele cs s) h = (if h \<in> Hash ` set cs then None else curPool s h)"
  by (induction cs arbitrary: s) (auto simp: applyOne_pool RemoveTransaction_def)

lemma applyLoop_validations:
  "length (validations c MaxPayloadSize seele cs s) = length cs
     \<and> curEvents (applyLoop c MaxPayloadSize seele cs s) =
         curEvents s @ concat (map (\<lambda>(tx, r). candidateEvents tx r) (zip cs (validations c MaxPayloadSize seele cs s)))
     \<and> txs (curTask (applyLoop c MaxPayloadSize seele cs s)) =
         txs (curTask s) @ map fst (filter (\<lambda>(tx, r). r = None) (zip cs (validations c MaxPayloadSize seele cs s)))"
proof (induction cs arbitrary: s)
  case Nil
  show ?case by simp
next
  case (Cons tx rest)
  from Cons [of "applyOne c MaxPayloadSize seele tx s"] show ?case
    by (simp add: applyOne_events applyOne_txs)
qed

text \<open>
  C5. \<open>applyTransactions\<close> is handed a new task, whose list of transactions is empty (its
  opening comment relies on it: the reward transaction is always the first of the
  block's transactions). Whenever the reward transaction can be built (the reward of
  the height and \<^verbatim>\<open>MaxPayloadSize\<close> not negative), \<open>applyTransactions\<close> returns with a nil
  error, having built the reward transaction (sender the zero address, receiver the
  coinbase, amount the reward, nonce 0, the placeholder signature, the hash of its data)
  and put it in the task's list before any candidate, directly after what the list held
  on entry: first, in the new task. The coinbase balance is credited by exactly the
  reward, and no other balance changes, before the candidates are processed. With no
  pending transaction the list of the new task is the reward transaction alone, and in
  the final state the coinbase balance is higher by exactly the reward, every other
  balance and every nonce unchanged.
\<close>

theorem applyTransactions_reward:
  assumes "0 \<le> sint (GetReward pw blockHeight)" and "0 \<le> MaxPayloadSize"
  shows "\<exists>s'. applyTransactions c MaxPayloadSize pw seele Commit now s blockHeight candidates = Inr (s', None)
     \<and> (\<exists>accepted. txs (curTask s') =
            txs (curTask s) @ rewardTx c now (GetCoinbase seele) (sint (GetReward pw blockHeight)) # accepted
          \<and> set accepted \<subseteq> set candidates)
     \<and> (txs (curTask s) = [] \<longrightarrow>
          txs (curTask s') \<noteq> []
        \<and> hd (txs (curTask s')) = rewardTx c now (GetCoinbase seele) (sint (GetReward pw blockHeight)))
     \<and> curState s' = curState (applyLoop c MaxPayloadSize seele candidates (afterReward c pw seele now s blockHeight))
     \<and> (\<forall>a. StatedbGetBalance (curState (afterReward c pw seele now s blockHeight)) a =
            StatedbGetBalance (curState s) a +
              (if a = GetCoinbase seele then sint (GetReward pw blockHeight) else 0))
     \<and> (candidates = [] \<longrightarrow>
          txs (curTask s') =
            txs (curTask s) @ [rewardTx c now (GetCoinbase seele) (sint (GetReward pw blockHeight))]
        \<and> (\<forall>a. StatedbGetBalance (curState s') a =
              StatedbGetBalance (curState s) a +
                (if a = GetCoinbase seele then sint (GetReward pw blockHeight) else 0)
            \<and> StatedbGetNonce (curState s') a = StatedbGetNonce (curState s) a))
     \<and> (candidates = [] \<and> txs (curTask s) = [] \<longrightarrow>
          txs (curTask s') = [rewardTx c now (GetCoinbase seele) (sint (GetReward pw blockHeight))])
     \<and> rewardTx c now (GetCoinbase seele) (sint (GetReward pw blockHeight)) =
          \<lparr>Hash = MustHash c (HashTxData (Some
              \<lparr>From = zeroAddress, To = Some (GetCoinbase seele),
               Amount = Some (sint (GetReward pw blockHeight)), AccountNonce = 0,
               Timestamp = now, Payload = []\<rparr>)),
           Data = Some \<lparr>From = zeroAddress, To = Some (GetCoinbase seele),
               Amount = Some (sint (GetReward pw blockHeight)), AccountNonce = 0,
               Timestamp = now, Payload = []\<rparr>,
           Signature = Some emptySignature\<rparr>"
proof -
  let ?rv = "sint (GetReward pw blockHeight)"
  let ?reward = "rewardTx c now (GetCoinbase seele) ?rv"
  let ?s0 = "afterReward c pw seele now s blockHeight"
  let ?s2 = "applyLoop c MaxPayloadSize seele candidates ?s0"
  obtain s' where ret: "applyTransactions c MaxPayloadSize pw seele Commit now s blockHeight candidates = Inr (s', None)"
    and task': "txs (curTask s') = txs (curTask ?s2)"
    and state': "curState s' = curState ?s2"
    using applyTransactions_afterReward [OF assms, of c seele Commit now s candidates] by simp
  from applyLoop_txs [of c MaxPayloadSize seele candidates ?s0] obtain accepted where
    acc: "txs (curTask ?s2) = txs (curTask ?s0) @ accepted" "set accepted \<subseteq> set candidates"
    by blast
  have start: "txs (curTask ?s0) = txs (curTask s) @ [?reward]"
    by (simp add: afterReward_def)
  have list: "txs (curTask s') = txs (curTask s) @ ?reward # accepted"
    using task' acc(1) start by simp
  have bal0: "\<forall>a. StatedbGetBalance (curState ?s0) a =
      StatedbGetBalance (curState s) a + (if a = GetCoinbase seele then ?rv else 0)"
    by (simp add: afterReward_def creditCoinbase_balance)
  have non0: "\<forall>a. StatedbGetNonce (curState ?s0) a = StatedbGetNonce (curState s) a"
    by (simp add: afterReward_def creditCoinbase_nonce)
  have empty: "candidates = [] \<longrightarrow>
          txs (curTask s') = txs (curTask s) @ [?reward]
        \<and> (\<forall>a. StatedbGetBalance (curState s') a =
              StatedbGetBalance (curState s) a + (if a = GetCoinbase seele then ?rv else 0)
            \<and> StatedbGetNonce (curState s') a = StatedbGetNonce (curState s) a)"
    using task' state' start bal0 non0 by simp
  have first: "txs (curTask s) = [] \<longrightarrow> txs (curTask s') \<noteq> [] \<and> hd (txs (curTask s')) = ?reward"
    using list by simp
  have only: "candidates = [] \<and> txs (curTask s) = [] \<longrightarrow> txs (curTask s') = [?reward]"
    using empty by simp
  have fields: "?reward =
          \<lparr>Hash = MustHash c (HashTxData (Some
              \<lparr>From = zeroAddress, To = Some (GetCoinbase seele),
               Amount = Some ?rv, AccountNonce = 0, Timestamp = now, Payload = []\<rparr>)),
           Data = Some \<lparr>From = zeroAddress, To = Some (GetCoinbase seele),
               Amount = Some ?rv, AccountNonce = 0, Timestamp = now, Payload = []\<rparr>,
           Signature = Some emptySignature\<rparr>"
    by (simp add: rewardTx_def)
  from ret list acc(2) first state' bal0 empty only fields show ?thesis
    by blast
qed

theorem applyTransactions_reward_witness:
  "map_option (txs \<circ> curTask)
     (assembled (applyTransactions toyCrypto defaultMaxPayloadSize toyPow toySeele toyCommit 9
        toyAssembly 10 []))
     = Some [rewardTx toyCrypto 9 [9] 50]
   \<and> map_option (\<lambda>s. StatedbGetBalance (curState s) [9])
     (assembled (applyTransactions toyCrypto defaultMaxPayloadSize toyPow toySeele toyCommit 9
        toyAssembly 10 []))
     = Some 50
   \<and> StatedbGetBalance (curState toyAssembly) [9] = 0
   \<and> map_option (hd \<circ> txs \<circ> curTask)
     (assembled (applyTransactions toyCrypto defaultMaxPayloadSize toyPow toySeele toyCommit 9
        toyAssembly 10 [toyTx 11 7 [1, 2], toyTx 5 7 [3]]))
     = Some (rewardTx toyCrypto 9 [9] 50)"
proof -
  have h: "0 \<le> sint (GetReward toyPow 10)"
    by (simp add: toyPow_def)
  have l: "0 \<le> defaultMaxPayloadSize"
    by (simp add: defaultMaxPayloadSize_def)
  have r: "sint (GetReward toyPow 10) = 50" "GetCoinbase toySeele = [9]"
    by (simp_all add: toyPow_def toySeele_def)
  have e: "txs (curTask toyAssembly) = []" "StatedbGetBalance (curState toyAssembly) [9] = 0"
    by (simp_all add: toyAssembly_def toyTask_def StatedbGetBalance_def)
  from applyTransactions_reward [OF h l, of toyCrypto toySeele toyCommit 9 toyAssembly "[]"]
  obtain s' where "applyTransactions toyCrypto defaultMaxPayloadSize toyPow toySeele toyCommit 9
        toyAssembly 10 [] = Inr (s', None)"
    and "txs (curTask s') = [rewardTx toyCrypto 9 [9] 50]"
    and "StatedbGetBalance (curState s') [9] = StatedbGetBalance (curState toyAssembly) [9] + 50"
    unfolding r using e(1) by auto
  with e(2) have none: "map_option (txs \<circ> curTask)
     (assembled (applyTransactions toyCrypto defaultMaxPayloadSize toyPow toySeele toyCommit 9
        toyAssembly 10 []))
     = Some [rewardTx toyCrypto 9 [9] 50]
   \<and> map_option (\<lambda>s. StatedbGetBalance (curState s) [9])
     (assembled (applyTransactions toyCrypto defaultMaxPayloadSize toyPow toySeele toyCommit 9
        toyAssembly 10 []))
     = Some 50"
    by (simp add: assembled_def)
  from applyTransactions_reward [OF h l, of toyCrypto toySeele toyCommit 9 toyAssembly
      "[toyTx 11 7 [1, 2], toyTx 5 7 [3]]"]
  obtain s1 where "applyTransactions toyCrypto defaultMaxPayloadSize toyPow toySeele toyCommit 9
        toyAssembly 10 [toyTx 11 7 [1, 2], toyTx 5 7 [3]] = Inr (s1, None)"
    and "hd (txs (curTask s1)) = rewardTx toyCrypto 9 [9] 50"
    unfolding r using e(1) by auto
  then have two: "map_option (hd \<circ> txs \<circ> curTask)
     (assembled (applyTransactions toyCrypto defaultMaxPayloadSize toyPow toySeele toyCommit 9
        toyAssembly 10 [toyTx 11 7 [1, 2], toyTx 5 7 [3]]))
     = Some (rewardTx toyCrypto 9 [9] 50)"
    by (simp add: assembled_def)
  from none e(2) two show ?thesis by blast
qed

text \<open>
  C6. In \<open>applyTransactions\<close> (which returns, with a nil error, whenever the reward of
  the height and \<^verbatim>\<open>MaxPayloadSize\<close> are not negative, and never returns another
  error): each candidate is removed from the pool before it is validated, whether it then passes or not, so that
  at the end no candidate is in the pool and the rest of the pool is untouched; the
  events of the loop are, candidate by candidate, removal, validation, then the
  application or the error line in the log. A candidate that fails \<^verbatim>\<open>Validate\<close> changes
  nothing but the pool and the log: it is not applied and is not in the task's list,
  which holds, after the reward transaction, exactly the candidates whose validation
  passed. Its failure does not affect the others: leaving a failing candidate out of the
  list of candidates gives the same task and the same state.
\<close>

theorem applyTransactions_failing_candidates:
  assumes "0 \<le> sint (GetReward pw blockHeight)" and "0 \<le> MaxPayloadSize"
  shows "(\<exists>s'. applyTransactions c MaxPayloadSize pw seele Commit now s blockHeight candidates = Inr (s', None)
       \<and> curEvents s' =
           curEvents s @
           concat (map (\<lambda>(tx, r). candidateEvents tx r)
             (zip candidates (validations c MaxPayloadSize seele candidates (afterReward c pw seele now s blockHeight)))) @
           [LogInfo ''mining block height:%d, reward:%s, transaction number:%d''
              [ArgUint64 blockHeight, ArgBigInt (sint (GetReward pw blockHeight)),
               ArgInt (int (length (txs (curTask s'))))]]
       \<and> txs (curTask s') =
           txs (curTask (afterReward c pw seele now s blockHeight)) @
           map fst (filter (\<lambda>(tx, r). r = None)
             (zip candidates (validations c MaxPayloadSize seele candidates (afterReward c pw seele now s blockHeight))))
       \<and> (\<forall>tx \<in> set candidates. curPool s' (Hash tx) = None)
       \<and> (\<forall>h. h \<notin> Hash ` set candidates \<longrightarrow> curPool s' h = curPool s h))
   \<and> (Validate c MaxPayloadSize tx (asStateDB (curState m)) = Some e \<longrightarrow>
        applyOne c MaxPayloadSize seele tx m =
          m\<lparr>curPool := RemoveTransaction (curPool m) (Hash tx),
            curEvents := curEvents m @
              [EvRemoveTransaction (Hash tx), EvValidate (Hash tx) (Some e),
               LogError ''validating tx failed, for %s'' [ArgString (Error e)]]\<rparr>)
   \<and> (Validate c MaxPayloadSize tx (asStateDB (curState
          (applyLoop c MaxPayloadSize seele xs (afterReward c pw seele now s blockHeight)))) = Some e \<longrightarrow>
        (\<exists>s1 s2. applyTransactions c MaxPayloadSize pw seele Commit now s blockHeight (xs @ tx # ys) = Inr (s1, None)
           \<and> applyTransactions c MaxPayloadSize pw seele Commit now s blockHeight (xs @ ys) = Inr (s2, None)
           \<and> curTask s1 = curTask s2 \<and> curState s1 = curState s2))
   \<and> (\<forall>s' err. applyTransactions c MaxPayloadSize pw seele Commit now s blockHeight candidates = Inr (s', err)
        \<longrightarrow> err = None)"
proof -
  let ?s0 = "afterReward c pw seele now s blockHeight"
  let ?s2 = "applyLoop c MaxPayloadSize seele candidates ?s0"
  note eq = applyTransactions_afterReward [OF assms, of c seele Commit now s]
  obtain s' where ret: "applyTransactions c MaxPayloadSize pw seele Commit now s blockHeight candidates = Inr (s', None)"
    and task': "txs (curTask s') = txs (curTask ?s2)"
    and pool': "curPool s' = curPool ?s2"
    and events': "curEvents s' = curEvents ?s2 @
        [LogInfo ''mining block height:%d, reward:%s, transaction number:%d''
           [ArgUint64 blockHeight, ArgBigInt (sint (GetReward pw blockHeight)),
            ArgInt (int (length (txs (curTask ?s2))))]]"
    using eq [of candidates] by simp
  note v = applyLoop_validations [of c MaxPayloadSize seele candidates ?s0]
  have s0: "curEvents ?s0 = curEvents s" "curPool ?s0 = curPool s"
    by (simp_all add: afterReward_def)
  have ev: "curEvents s' =
           curEvents s @
           concat (map (\<lambda>(tx, r). candidateEvents tx r)
             (zip candidates (validations c MaxPayloadSize seele candidates ?s0))) @
           [LogInfo ''mining block height:%d, reward:%s, transaction number:%d''
              [ArgUint64 blockHeight, ArgBigInt (sint (GetReward pw blockHeight)),
               ArgInt (int (length (txs (curTask s'))))]]"
    using events' v task' s0(1) by simp
  have tx: "txs (curTask s') =
           txs (curTask ?s0) @
           map fst (filter (\<lambda>(tx, r). r = None) (zip candidates (validations c MaxPayloadSize seele candidates ?s0)))"
    using task' v by simp
  have removed: "\<forall>tx \<in> set candidates. curPool s' (Hash tx) = None"
    by (simp add: pool' applyLoop_pool)
  have kept: "\<forall>h. h \<notin> Hash ` set candidates \<longrightarrow> curPool s' h = curPool s h"
    by (simp add: pool' applyLoop_pool s0(2))
  have part1: "\<exists>s'. applyTransactions c MaxPayloadSize pw seele Commit now s blockHeight candidates = Inr (s', None)
       \<and> curEvents s' =
           curEvents s @
           concat (map (\<lambda>(tx, r). candidateEvents tx r)
             (zip candidates (validations c MaxPayloadSize seele candidates ?s0))) @
           [LogInfo ''mining block height:%d, reward:%s, transaction number:%d''
              [ArgUint64 blockHeight, ArgBigInt (sint (GetReward pw blockHeight)),
               ArgInt (int (length (txs (curTask s'))))]]
       \<and> txs (curTask s') =
           txs (curTask ?s0) @
           map fst (filter (\<lambda>(tx, r). r = None) (zip candidates (validations c MaxPayloadSize seele candidates ?s0)))
       \<and> (\<forall>tx \<in> set candidates. curPool s' (Hash tx) = None)
       \<and> (\<forall>h. h \<notin> Hash ` set candidates \<longrightarrow> curPool s' h = curPool s h)"
    using ret ev tx removed kept by blast
  have part2: "Validate c MaxPayloadSize tx (asStateDB (curState m)) = Some e \<longrightarrow>
        applyOne c MaxPayloadSize seele tx m =
          m\<lparr>curPool := RemoveTransaction (curPool m) (Hash tx),
            curEvents := curEvents m @
              [EvRemoveTransaction (Hash tx), EvValidate (Hash tx) (Some e),
               LogError ''validating tx failed, for %s'' [ArgString (Error e)]]\<rparr>"
    using applyOne_failing [of c MaxPayloadSize tx m e seele] by blast
  have part3: "Validate c MaxPayloadSize tx (asStateDB (curState (applyLoop c MaxPayloadSize seele xs ?s0))) = Some e \<longrightarrow>
        (\<exists>s1 s2. applyTransactions c MaxPayloadSize pw seele Commit now s blockHeight (xs @ tx # ys) = Inr (s1, None)
           \<and> applyTransactions c MaxPayloadSize pw seele Commit now s blockHeight (xs @ ys) = Inr (s2, None)
           \<and> curTask s1 = curTask s2 \<and> curState s1 = curState s2)"
  proof
    assume "Validate c MaxPayloadSize tx (asStateDB (curState (applyLoop c MaxPayloadSize seele xs ?s0))) = Some e"
    from applyLoop_drop_failing [OF this, of ys]
    have same: "curTask (applyLoop c MaxPayloadSize seele (xs @ tx # ys) ?s0) = curTask (applyLoop c MaxPayloadSize seele (xs @ ys) ?s0)"
      "curState (applyLoop c MaxPayloadSize seele (xs @ tx # ys) ?s0) = curState (applyLoop c MaxPayloadSize seele (xs @ ys) ?s0)"
      by simp_all
    show "\<exists>s1 s2. applyTransactions c MaxPayloadSize pw seele Commit now s blockHeight (xs @ tx # ys) = Inr (s1, None)
           \<and> applyTransactions c MaxPayloadSize pw seele Commit now s blockHeight (xs @ ys) = Inr (s2, None)
           \<and> curTask s1 = curTask s2 \<and> curState s1 = curState s2"
      unfolding eq [of "xs @ tx # ys"] eq [of "xs @ ys"] by (simp add: same)
  qed
  have part4: "\<forall>s' err. applyTransactions c MaxPayloadSize pw seele Commit now s blockHeight candidates = Inr (s', err)
        \<longrightarrow> err = None"
    using applyTransactions_returns_nil by blast
  from part1 part2 part3 part4 show ?thesis by blast
qed

theorem applyTransactions_failing_candidates_witness:
  "(\<exists>s'. applyTransactions toyCrypto defaultMaxPayloadSize toyPow toySeele toyCommit 9 toyAssembly 10
             [toyTx 11 7 [1, 2], toyTx 5 7 [3]] = Inr (s', None)
      \<and> txs (curTask s') = [rewardTx toyCrypto 9 [9] 50, toyTx 5 7 [3]]
      \<and> curEvents s' =
          [EvRemoveTransaction [1, 2], EvValidate [1, 2] (Some ErrBalanceNotEnough),
           LogError ''validating tx failed, for %s'' [ArgString ''balance not enough''],
           EvRemoveTransaction [3], EvValidate [3] None, EvApplyTransaction [3],
           LogInfo ''mining block height:%d, reward:%s, transaction number:%d''
             [ArgUint64 10, ArgBigInt 50, ArgInt 2]]
      \<and> curPool s' [1, 2] = None \<and> curPool s' [3] = None)
   \<and> curPool toyAssembly [1, 2] = Some (toyTx 11 7 [1, 2])
   \<and> (\<exists>s1 s2. applyTransactions toyCrypto defaultMaxPayloadSize toyPow toySeele toyCommit 9 toyAssembly 10
             [toyTx 11 7 [1, 2], toyTx 5 7 [3]] = Inr (s1, None)
        \<and> applyTransactions toyCrypto defaultMaxPayloadSize toyPow toySeele toyCommit 9 toyAssembly 10
             [toyTx 5 7 [3]] = Inr (s2, None)
        \<and> curTask s1 = curTask s2 \<and> curState s1 = curState s2)"
proof -
  let ?bad = "toyTx 11 7 [1, 2]" and ?good = "toyTx 5 7 [3]"
  let ?s0 = "afterReward toyCrypto toyPow toySeele 9 toyAssembly 10"
  have h: "0 \<le> sint (GetReward toyPow 10)"
    by (simp add: toyPow_def)
  have l: "0 \<le> defaultMaxPayloadSize"
    by (simp add: defaultMaxPayloadSize_def)
  have rv: "sint (GetReward toyPow 10) = 50" "GetCoinbase toySeele = [9]"
    by (simp_all add: toyPow_def toySeele_def)
  have hashes: "Hash ?bad = [1, 2]" "Hash ?good = [3]"
    by (simp_all add: toyTx_def)
  have bal: "GetBalance (asStateDB (curState ?s0)) [1] = 10" "GetNonce (asStateDB (curState ?s0)) [1] = 7"
    by (simp_all add: afterReward_def creditCoinbase_def GetOrNewStateObject_def AddAmount_def
        asStateDB_def StatedbGetBalance_def StatedbGetNonce_def toyAssembly_def toySeele_def)
  have fail: "Validate toyCrypto defaultMaxPayloadSize ?bad (asStateDB (curState ?s0)) = Some ErrBalanceNotEnough"
    by (simp add: Validate_def toyTx_def bal)
  have toy: "MustHash toyCrypto (HashTxData (Some d)) = Payload d"
    "Verify toyCrypto sg a b = (Sig sg = b)" for d sg a b
    by (simp_all add: toyCrypto_def)
  have pass: "Validate toyCrypto defaultMaxPayloadSize ?good (asStateDB (curState ?s0)) = None"
    by (simp add: Validate_def toyTx_def toy bal defaultMaxPayloadSize_def)
  have step: "curState (applyOne toyCrypto defaultMaxPayloadSize toySeele ?bad ?s0) = curState ?s0"
    by (simp add: applyOne_curState fail)
  have vals: "validations toyCrypto defaultMaxPayloadSize toySeele [?bad, ?good] ?s0 = [Some ErrBalanceNotEnough, None]"
    by (simp add: fail pass step)
  have start: "txs (curTask ?s0) = [rewardTx toyCrypto 9 [9] 50]" "curEvents toyAssembly = []"
    by (simp_all add: afterReward_def toyAssembly_def toyTask_def rv)
  have fail0: "Validate toyCrypto defaultMaxPayloadSize ?bad
      (asStateDB (curState (applyLoop toyCrypto defaultMaxPayloadSize toySeele [] ?s0))) = Some ErrBalanceNotEnough"
    using fail by simp
  note inst = applyTransactions_failing_candidates [OF h l, of toyCrypto toySeele toyCommit 9
      toyAssembly "[?bad, ?good]" ?bad ?s0 ErrBalanceNotEnough "[]" "[?good]"]
  from inst obtain s' where
    ret: "applyTransactions toyCrypto defaultMaxPayloadSize toyPow toySeele toyCommit 9 toyAssembly 10 [?bad, ?good] = Inr (s', None)"
    and ev: "curEvents s' =
           curEvents toyAssembly @
           concat (map (\<lambda>(tx, r). candidateEvents tx r)
             (zip [?bad, ?good] (validations toyCrypto defaultMaxPayloadSize toySeele [?bad, ?good] ?s0))) @
           [LogInfo ''mining block height:%d, reward:%s, transaction number:%d''
              [ArgUint64 10, ArgBigInt (sint (GetReward toyPow 10)),
               ArgInt (int (length (txs (curTask s'))))]]"
    and tx: "txs (curTask s') =
           txs (curTask ?s0) @
           map fst (filter (\<lambda>(tx, r). r = None)
             (zip [?bad, ?good] (validations toyCrypto defaultMaxPayloadSize toySeele [?bad, ?good] ?s0)))"
    and pool: "\<forall>tx \<in> set [?bad, ?good]. curPool s' (Hash tx) = None"
    by blast
  have tx': "txs (curTask s') = [rewardTx toyCrypto 9 [9] 50, ?good]"
    using tx unfolding vals by (simp add: start)
  have ev': "curEvents s' =
          [EvRemoveTransaction [1, 2], EvValidate [1, 2] (Some ErrBalanceNotEnough),
           LogError ''validating tx failed, for %s'' [ArgString ''balance not enough''],
           EvRemoveTransaction [3], EvValidate [3] None, EvApplyTransaction [3],
           LogInfo ''mining block height:%d, reward:%s, transaction number:%d''
             [ArgUint64 10, ArgBigInt 50, ArgInt 2]]"
    using ev unfolding vals by (simp add: start tx' rv candidateEvents_def hashes)
  have pool': "curPool s' [1, 2] = None \<and> curPool s' [3] = None"
    using pool by (simp add: hashes)
  have before: "curPool toyAssembly [1, 2] = Some ?bad"
    by (simp add: toyAssembly_def)
  from inst fail0 have "\<exists>s1 s2. applyTransactions toyCrypto defaultMaxPayloadSize toyPow toySeele toyCommit 9 toyAssembly 10
             [?bad, ?good] = Inr (s1, None)
        \<and> applyTransactions toyCrypto defaultMaxPayloadSize toyPow toySeele toyCommit 9 toyAssembly 10
             [?good] = Inr (s2, None)
        \<and> curTask s1 = curTask s2 \<and> curState s1 = curState s2"
    by simp
  with ret tx' ev' pool' before show ?thesis by blast
qed

end
